theory Spec2Isabelle
  imports Main "HOL-Library.AList" "HOL-Library.Sublist"
begin

section \<open>Values, errors and the outside world\<close>

text \<open>
  The ACME client of \<^verbatim>\<open>acertmgr_ssl.py\<close> talks to a certificate authority over
  HTTP, writes a proof file and reads library results that are Python objects. The model
  keeps each of these as the code has it:
  \<^item> Python \<^verbatim>\<open>str\<close> and \<^verbatim>\<open>bytes\<close> are both \<open>string\<close>; a character is a code
    point below 256;
  \<^item> a value decoded from JSON is a \<open>json\<close>; a Python \<^verbatim>\<open>dict\<close> is an association
    list in insertion order, read with \<open>map_of\<close> and written with \<open>AList.update\<close>
    (replace in place, or append);
  \<^item> an exception is a value of \<open>error\<close>, returned as \<open>Inl\<close>.
\<close>

type_synonym bytes = string
type_synonym url = string
type_synonym path = string

datatype json =
  JNull | JBool bool | JInt int | JStr string | JArr "json list" | JObj "(string \<times> json) list"

type_synonym dict = "(string \<times> json) list"

text \<open>
  What \<^verbatim>\<open>urlopen\<close> can do. It returns a response object (status code, the value of the
  \<^verbatim>\<open>Replay-Nonce\<close> header if the response has one, body), or raises an \<^verbatim>\<open>IOError\<close>:
  an \<^verbatim>\<open>HTTPError\<close>, which has \<^verbatim>\<open>code\<close> and \<^verbatim>\<open>read()\<close>, or any other one
  (\<^verbatim>\<open>URLError\<close>, a socket error), which has neither and is kept with its text
  \<^verbatim>\<open>str(e)\<close>. It can also raise an exception that is not an \<^verbatim>\<open>IOError\<close>
  (\<^verbatim>\<open>ValueError\<close> for a malformed URL, \<^verbatim>\<open>http.client.HTTPException\<close>).
\<close>

datatype ioerror = HTTPError int bytes | URLError string

datatype urlresult =
  Response int "string option" bytes
  | Raises_IOError ioerror
  | Raises_other

text \<open>
  The source raises \<^verbatim>\<open>ValueError\<close> with a formatted message at seven places. The
  message is kept structured: which place, and the values formatted into it.
\<close>

datatype message =
  Error_registering "int option" bytes
  | Error_requesting_challenges "int option" bytes
  | Couldnt_download path url
  | Error_triggering_challenge "int option" bytes
  | Error_checking_challenge int json
  | Challenge_did_not_pass string json
  | Error_signing_certificate "int option" bytes

datatype error =
  ValueError message
  | IOError ioerror
  | UrlopenError
  | IndexError
  | KeyError string
  | TypeError
  | AttributeError
  | UnicodeDecodeError
  | JSONDecodeError
  | BinasciiError
  | OSError path
  | CryptoError

text \<open>
  Library functions the source calls (\<^verbatim>\<open>OpenSSL.crypto\<close>, \<^verbatim>\<open>json\<close>, \<^verbatim>\<open>base64\<close>,
  \<^verbatim>\<open>binascii\<close>, \<^verbatim>\<open>hashlib\<close>, \<^verbatim>\<open>bytes.decode\<close>) are parameters, collected in a
  record. A function that can raise returns an option.
  \<^item> \<open>dump_privatekey_groups\<close>: the two groups (modulus, exponent) that the regular
    expression of \<^verbatim>\<open>acme_header\<close> finds in the text dump of the key; \<open>None\<close> when it
    does not match.
  \<^item> \<open>json_dumps_sorted\<close>: \<^verbatim>\<open>json.dumps(_, sort_keys=True, separators=(',', ':'))\<close>.
  \<^item> \<open>crypto_sign key data digest\<close>: \<^verbatim>\<open>crypto.sign(key, data, digest)\<close>.
\<close>

record ('key, 'csr, 'cert) pylib =
  dump_privatekey_groups :: "'key \<Rightarrow> (string \<times> string) option"
  unhexlify :: "string \<Rightarrow> bytes option"
  urlsafe_b64encode :: "bytes \<Rightarrow> string"
  json_dumps :: "json \<Rightarrow> string"
  json_dumps_sorted :: "json \<Rightarrow> string"
  json_loads :: "string \<Rightarrow> json option"
  decode_utf8 :: "bytes \<Rightarrow> string option"
  sha256_digest :: "bytes \<Rightarrow> bytes"
  crypto_sign :: "'key \<Rightarrow> string \<Rightarrow> string \<Rightarrow> bytes"
  dump_certificate_request :: "'csr \<Rightarrow> bytes"
  load_certificate :: "bytes \<Rightarrow> 'cert option"

text \<open>
  The world outside the process: the trace of everything done so far (network requests,
  file operations, sleeps) and the files of the challenge directory. The network is any
  function from the trace, whose last event is the request being made, to what
  \<^verbatim>\<open>urlopen\<close> does: every certificate authority and every web server, well behaved or
  not, is such a function. Output printed to the terminal is not part of the model.
\<close>

datatype event =
  Get url
  | Post url bytes
  | Write path string
  | Remove path
  | Sleep nat

record world =
  trace :: "event list"
  files :: "path \<rightharpoonup> string"

type_synonym network = "event list \<Rightarrow> urlresult"

definition urlopen :: "network \<Rightarrow> event \<Rightarrow> world \<Rightarrow> urlresult \<times> world" where
  "urlopen N req w = (N (trace w @ [req]), w\<lparr>trace := trace w @ [req]\<rparr>)"

text \<open>
  \<^verbatim>\<open>open(p, "w")\<close> and \<^verbatim>\<open>write\<close>: the challenge directory exists and can be written
  to, so the write succeeds. \<^verbatim>\<open>os.remove\<close> of a file that is not there raises
  \<^verbatim>\<open>OSError\<close>.
\<close>

definition write_file :: "path \<Rightarrow> string \<Rightarrow> world \<Rightarrow> world" where
  "write_file p s w = w\<lparr>trace := trace w @ [Write p s], files := (files w)(p \<mapsto> s)\<rparr>"

definition os_remove :: "path \<Rightarrow> world \<Rightarrow> error + world" where
  "os_remove p w =
     (if p \<in> dom (files w)
      then Inr (w\<lparr>trace := trace w @ [Remove p], files := (files w)(p := None)\<rparr>)
      else Inl (OSError p))"

definition time_sleep :: "nat \<Rightarrow> world \<Rightarrow> world" where
  "time_sleep n w = w\<lparr>trace := trace w @ [Sleep n]\<rparr>"

section \<open>Strings\<close>

text \<open>
  The characters \<^verbatim>\<open>\s\<close> and \<^verbatim>\<open>str.strip()\<close> take for whitespace, among the code
  points below 256.
\<close>

definition is_space :: "char \<Rightarrow> bool" where
  "is_space c = (c \<in> set [CHR 0x09, CHR 0x0A, CHR 0x0B, CHR 0x0C, CHR 0x0D,
     CHR 0x1C, CHR 0x1D, CHR 0x1E, CHR 0x1F, CHR 0x20, CHR 0x85, CHR 0xA0])"

definition strip :: "string \<Rightarrow> string" where
  "strip s = rev (dropWhile is_space (rev (dropWhile is_space s)))"

text \<open>The character class \<^verbatim>\<open>[A-Za-z0-9_\-]\<close> of line 161.\<close>

definition token_char :: "char \<Rightarrow> bool" where
  "token_char c = (c \<in> set (''ABCDEFGHIJKLMNOPQRSTUVWXYZ'' @ ''abcdefghijklmnopqrstuvwxyz''
     @ ''0123456789'' @ ''_-''))"

text \<open>\<^verbatim>\<open>re.sub(r"[^A-Za-z0-9_\-]", "_", token)\<close>: every match is one character.\<close>

definition sanitize :: "string \<Rightarrow> string" where
  "sanitize token = map (\<lambda>c. if token_char c then c else CHR ''_'') token"

text \<open>\<^verbatim>\<open>os.path.join\<close> of two components (POSIX).\<close>

definition os_path_join :: "path \<Rightarrow> string \<Rightarrow> path" where
  "os_path_join a b =
     (if b \<noteq> [] \<and> hd b = CHR ''/'' then b
      else if a = [] \<or> last a = CHR ''/'' then a @ b
      else a @ ''/'' @ b)"

section \<open>JSON values as Python objects\<close>

text \<open>\<^verbatim>\<open>obj[key]\<close> for a string key: only a dict has one.\<close>

definition getitem :: "json \<Rightarrow> string \<Rightarrow> error + json" where
  "getitem obj k =
     (case obj of
        JObj kvs \<Rightarrow> (case map_of kvs k of None \<Rightarrow> Inl (KeyError k) | Some v \<Rightarrow> Inr v)
      | _ \<Rightarrow> Inl TypeError)"

text \<open>
  \<^verbatim>\<open>for c in obj\<close>: the elements of a list, the keys of a dict, the characters of a
  string; nothing else is iterable.
\<close>

definition iterate :: "json \<Rightarrow> error + json list" where
  "iterate obj =
     (case obj of
        JArr xs \<Rightarrow> Inr xs
      | JObj kvs \<Rightarrow> Inr (map (\<lambda>kv. JStr (fst kv)) kvs)
      | JStr s \<Rightarrow> Inr (map (\<lambda>c. JStr [c]) s)
      | _ \<Rightarrow> Inl TypeError)"

text \<open>\<^verbatim>\<open>json.loads(b.decode('utf8'))\<close>.\<close>

definition loads_utf8 :: "('key, 'csr, 'cert) pylib \<Rightarrow> bytes \<Rightarrow> error + json" where
  "loads_utf8 L b =
     (case decode_utf8 L b of
        None \<Rightarrow> Inl UnicodeDecodeError
      | Some s \<Rightarrow> (case json_loads L s of None \<Rightarrow> Inl JSONDecodeError | Some j \<Rightarrow> Inr j))"

section \<open>Signed requests\<close>

text \<open>\<^verbatim>\<open>base64_enc\<close>, lines 108-109.\<close>

definition base64_enc :: "('key, 'csr, 'cert) pylib \<Rightarrow> bytes \<Rightarrow> string" where
  "base64_enc L b = filter (\<lambda>c. c \<noteq> CHR ''='') (urlsafe_b64encode L b)"

text \<open>\<^verbatim>\<open>acme_header\<close>, lines 69-84.\<close>

definition acme_header :: "('key, 'csr, 'cert) pylib \<Rightarrow> 'key \<Rightarrow> error + dict" where
  "acme_header L key =
     (case dump_privatekey_groups L key of
        None \<Rightarrow> Inl AttributeError
      | Some (pub_mod0, pub_exp0) \<Rightarrow>
          let pub_mod = filter (\<lambda>c. \<not> (c = CHR '':'' \<or> is_space c)) pub_mod0;
              pub_exp = (if length pub_exp0 mod 2 \<noteq> 0 then ''0'' @ pub_exp0 else pub_exp0)
          in (case unhexlify L pub_exp of
                None \<Rightarrow> Inl BinasciiError
              | Some e \<Rightarrow>
                  (case unhexlify L pub_mod of
                     None \<Rightarrow> Inl BinasciiError
                   | Some n \<Rightarrow>
                       Inr [(''alg'', JStr ''RS256''),
                            (''jwk'', JObj [(''e'', JStr (base64_enc L e)),
                                            (''kty'', JStr ''RSA''),
                                            (''n'', JStr (base64_enc L n))])])))"

text \<open>
  \<^verbatim>\<open>send_signed\<close>, lines 118-132. The nonce is \<^verbatim>\<open>headers['Replay-Nonce']\<close>,
  which is \<^verbatim>\<open>None\<close> when the response has no such header (Python 3).
\<close>

definition nonce_value :: "string option \<Rightarrow> json" where
  "nonce_value h = (case h of None \<Rightarrow> JNull | Some n \<Rightarrow> JStr n)"

text \<open>
  Lines 119-127 work on objects: \<^verbatim>\<open>protected = copy.deepcopy(header)\<close> makes a new
  dict, \<^verbatim>\<open>protected["nonce"] = ...\<close> writes into it, and line 125 reads \<^verbatim>\<open>header\<close>
  again. The dicts are in a store: a list of objects, an address is an index, and a new
  object goes to the end. An address is that of an object of the store.
\<close>

type_synonym addr = nat
type_synonym store = "dict list"

definition deepcopy :: "store \<Rightarrow> addr \<Rightarrow> addr \<times> store" where
  "deepcopy S a = (length S, S @ [S ! a])"

definition setitem :: "store \<Rightarrow> addr \<Rightarrow> string \<Rightarrow> json \<Rightarrow> store" where
  "setitem S a k v = S[a := AList.update k v (S ! a)]"

text \<open>
  Lines 119-127, given the address of the header and the nonce that line 121 fetched:
  the body of the request, and the store as the lines leave it. \<^verbatim>\<open>json.dumps\<close>
  returns ASCII, so its \<^verbatim>\<open>encode('utf8')\<close> is the identity.
\<close>

definition build_request ::
  "('key, 'csr, 'cert) pylib \<Rightarrow> 'key \<Rightarrow> store \<Rightarrow> addr \<Rightarrow> json \<Rightarrow> json \<Rightarrow> bytes \<times> store" where
  "build_request L account_key S header nonce payload =
     (let payload64 = base64_enc L (json_dumps L payload)
      in (case deepcopy S header of
            (protected, S1) \<Rightarrow>
              let S2 = setitem S1 protected ''nonce'' nonce;
                  protected64 = base64_enc L (json_dumps L (JObj (S2 ! protected)));
                  out = crypto_sign L account_key (protected64 @ ''.'' @ payload64) ''sha256''
              in (json_dumps L (JObj [(''header'', JObj (S2 ! header)),
                                      (''protected'', JStr protected64),
                                      (''payload'', JStr payload64),
                                      (''signature'', JStr (base64_enc L out))]),
                  S2)))"

text \<open>
  The body of the request for a header given as a value: the header is the one object
  of the store.
\<close>

definition signed_body ::
  "('key, 'csr, 'cert) pylib \<Rightarrow> 'key \<Rightarrow> dict \<Rightarrow> json \<Rightarrow> json \<Rightarrow> bytes" where
  "signed_body L account_key header nonce payload =
     fst (build_request L account_key [header] 0 nonce payload)"

text \<open>
  The URL of the POST is a value the caller read from JSON in one place (line 179), so it
  is a \<open>json\<close>: \<^verbatim>\<open>urlopen\<close> of anything but a string raises \<^verbatim>\<open>AttributeError\<close>
  before it touches the network.
\<close>

definition send_signed ::
  "('key, 'csr, 'cert) pylib \<Rightarrow> network \<Rightarrow> 'key \<Rightarrow> url \<Rightarrow> json \<Rightarrow> dict \<Rightarrow> json \<Rightarrow> world
     \<Rightarrow> (error + int option \<times> bytes) \<times> world" where
  "send_signed L N account_key CA target header payload w =
     (case urlopen N (Get (CA @ ''/directory'')) w of
        (Raises_IOError e, w1) \<Rightarrow> (Inl (IOError e), w1)
      | (Raises_other, w1) \<Rightarrow> (Inl UrlopenError, w1)
      | (Response c0 h b0, w1) \<Rightarrow>
          let data = signed_body L account_key header (nonce_value h) payload
          in (case target of
                JStr u \<Rightarrow>
                  (case urlopen N (Post u data) w1 of
                     (Response code h2 body, w2) \<Rightarrow> (Inr (Some code, body), w2)
                   | (Raises_IOError (HTTPError code body), w2) \<Rightarrow> (Inr (Some code, body), w2)
                   | (Raises_IOError (URLError text), w2) \<Rightarrow> (Inr (None, text), w2)
                   | (Raises_other, w2) \<Rightarrow> (Inl UrlopenError, w2))
              | _ \<Rightarrow> (Inl AttributeError, w1)))"

section \<open>Account registration\<close>

text \<open>
  \<^verbatim>\<open>register_account\<close>, lines 90-103: \<open>True\<close> for a new registration, \<open>False\<close> for
  an existing one.
\<close>

definition new_reg_payload :: json where
  "new_reg_payload =
     JObj [(''resource'', JStr ''new-reg''),
           (''agreement'', JStr ''https://letsencrypt.org/documents/LE-SA-v1.0.1-July-27-2015.pdf'')]"

definition register_account ::
  "('key, 'csr, 'cert) pylib \<Rightarrow> network \<Rightarrow> 'key \<Rightarrow> url \<Rightarrow> world \<Rightarrow> (error + bool) \<times> world" where
  "register_account L N account_key CA w =
     (case acme_header L account_key of
        Inl e \<Rightarrow> (Inl e, w)
      | Inr header \<Rightarrow>
          (case send_signed L N account_key CA (JStr (CA @ ''/acme/new-reg'')) header
                  new_reg_payload w of
             (Inl e, w1) \<Rightarrow> (Inl e, w1)
           | (Inr (code, result), w1) \<Rightarrow>
               if code = Some 201 then (Inr True, w1)
               else if code = Some 409 then (Inr False, w1)
               else (Inl (ValueError (Error_registering code result)), w1)))"

section \<open>Validating one domain\<close>

text \<open>
  The body of the loop of \<^verbatim>\<open>get_crt_from_csr\<close>, lines 149-202, in the order of the
  source: request the challenges, choose the HTTP-01 one, write the proof file, fetch it
  back, tell the authority, wait for its verdict.
\<close>

definition new_authz_payload :: "string \<Rightarrow> json" where
  "new_authz_payload domain =
     JObj [(''resource'', JStr ''new-authz''),
           (''identifier'', JObj [(''type'', JStr ''dns''), (''value'', JStr domain)])]"

text \<open>
  Line 160, the list comprehension: \<^verbatim>\<open>c['type']\<close> is evaluated for every element in
  turn, and the first one that raises ends the comprehension.
\<close>

fun filter_http01 :: "json list \<Rightarrow> error + json list" where
  "filter_http01 [] = Inr []"
| "filter_http01 (c # cs) =
     (case getitem c ''type'' of
        Inl e \<Rightarrow> Inl e
      | Inr t \<Rightarrow>
          (case filter_http01 cs of
             Inl e \<Rightarrow> Inl e
           | Inr r \<Rightarrow> Inr (if t = JStr ''http-01'' then c # r else r)))"

text \<open>Line 160 as a whole; \<^verbatim>\<open>[0]\<close> of an empty list raises \<^verbatim>\<open>IndexError\<close>.\<close>

definition select_challenge :: "('key, 'csr, 'cert) pylib \<Rightarrow> bytes \<Rightarrow> error + json" where
  "select_challenge L result =
     (case loads_utf8 L result of
        Inl e \<Rightarrow> Inl e
      | Inr authz \<Rightarrow>
          (case getitem authz ''challenges'' of
             Inl e \<Rightarrow> Inl e
           | Inr cs \<Rightarrow>
               (case iterate cs of
                  Inl e \<Rightarrow> Inl e
                | Inr xs \<Rightarrow>
                    (case filter_http01 xs of
                       Inl e \<Rightarrow> Inl e
                     | Inr [] \<Rightarrow> Inl IndexError
                     | Inr (c # rest) \<Rightarrow> Inr c))))"

text \<open>Line 161; \<^verbatim>\<open>re.sub\<close> of a value that is not a string raises \<^verbatim>\<open>TypeError\<close>.\<close>

definition challenge_token :: "json \<Rightarrow> error + string" where
  "challenge_token challenge =
     (case getitem challenge ''token'' of
        Inl e \<Rightarrow> Inl e
      | Inr (JStr t) \<Rightarrow> Inr (sanitize t)
      | Inr other \<Rightarrow> Inl TypeError)"

definition wellknown_url_of :: "string \<Rightarrow> string \<Rightarrow> url" where
  "wellknown_url_of domain token = ''http://'' @ domain @ ''/.well-known/acme-challenge/'' @ token"

definition challenge_payload :: "string \<Rightarrow> json" where
  "challenge_payload keyauthorization =
     JObj [(''resource'', JStr ''challenge''), (''keyAuthorization'', JStr keyauthorization)]"

text \<open>
  Lines 169-176. The handler catches \<^verbatim>\<open>IOError\<close> and \<^verbatim>\<open>AssertionError\<close> only: a
  body that is not UTF-8, or an exception of \<^verbatim>\<open>urlopen\<close> that is not an
  \<^verbatim>\<open>IOError\<close>, leaves the function with the file in place.
\<close>

definition self_check_failed :: "path \<Rightarrow> url \<Rightarrow> world \<Rightarrow> (error + unit) \<times> world" where
  "self_check_failed wellknown_path wellknown_url w =
     (case os_remove wellknown_path w of
        Inl e \<Rightarrow> (Inl e, w)
      | Inr w1 \<Rightarrow> (Inl (ValueError (Couldnt_download wellknown_path wellknown_url)), w1))"

definition self_check ::
  "('key, 'csr, 'cert) pylib \<Rightarrow> network \<Rightarrow> url \<Rightarrow> path \<Rightarrow> string \<Rightarrow> world
     \<Rightarrow> (error + unit) \<times> world" where
  "self_check L N wellknown_url wellknown_path keyauthorization w =
     (case urlopen N (Get wellknown_url) w of
        (Raises_other, w1) \<Rightarrow> (Inl UrlopenError, w1)
      | (Raises_IOError e, w1) \<Rightarrow> self_check_failed wellknown_path wellknown_url w1
      | (Response code h body, w1) \<Rightarrow>
          (case decode_utf8 L body of
             None \<Rightarrow> (Inl UnicodeDecodeError, w1)
           | Some text \<Rightarrow>
               if strip text = keyauthorization then (Inr (), w1)
               else self_check_failed wellknown_path wellknown_url w1))"

text \<open>
  Lines 187-202, the polling loop. It has no bound, so it is a partial function: \<open>None\<close>
  is the loop that never ends. In the handler of line 191, \<^verbatim>\<open>e.code\<close> is read first,
  and an \<^verbatim>\<open>IOError\<close> that is not an \<^verbatim>\<open>HTTPError\<close> has none.
\<close>

partial_function (option) wait_for_challenge ::
  "('key, 'csr, 'cert) pylib \<Rightarrow> network \<Rightarrow> url \<Rightarrow> string \<Rightarrow> path \<Rightarrow> world
     \<Rightarrow> ((error + unit) \<times> world) option" where
  "wait_for_challenge L N uri domain wellknown_path w =
     (case urlopen N (Get uri) w of
        (Raises_other, w1) \<Rightarrow> Some (Inl UrlopenError, w1)
      | (Raises_IOError (URLError text), w1) \<Rightarrow> Some (Inl AttributeError, w1)
      | (Raises_IOError (HTTPError code body), w1) \<Rightarrow>
          (case loads_utf8 L body of
             Inl e \<Rightarrow> Some (Inl e, w1)
           | Inr j \<Rightarrow> Some (Inl (ValueError (Error_checking_challenge code j)), w1))
      | (Response code h body, w1) \<Rightarrow>
          (case loads_utf8 L body of
             Inl e \<Rightarrow> Some (Inl e, w1)
           | Inr challenge_status \<Rightarrow>
               (case getitem challenge_status ''status'' of
                  Inl e \<Rightarrow> Some (Inl e, w1)
                | Inr status \<Rightarrow>
                    if status = JStr ''pending''
                    then wait_for_challenge L N uri domain wellknown_path (time_sleep 2 w1)
                    else if status = JStr ''valid''
                    then (case os_remove wellknown_path w1 of
                            Inl e \<Rightarrow> Some (Inl e, w1)
                          | Inr w2 \<Rightarrow> Some (Inr (), w2))
                    else Some (Inl (ValueError (Challenge_did_not_pass domain challenge_status)),
                               w1))))"

definition verify_domain ::
  "('key, 'csr, 'cert) pylib \<Rightarrow> network \<Rightarrow> 'key \<Rightarrow> path \<Rightarrow> url \<Rightarrow> dict \<Rightarrow> string \<Rightarrow> string
     \<Rightarrow> world \<Rightarrow> ((error + unit) \<times> world) option" where
  "verify_domain L N account_key acme_dir CA header account_thumbprint domain w =
     (case send_signed L N account_key CA (JStr (CA @ ''/acme/new-authz'')) header
             (new_authz_payload domain) w of
        (Inl e, w1) \<Rightarrow> Some (Inl e, w1)
      | (Inr (code, result), w1) \<Rightarrow>
          if code \<noteq> Some 201
          then Some (Inl (ValueError (Error_requesting_challenges code result)), w1)
          else
            (case select_challenge L result of
               Inl e \<Rightarrow> Some (Inl e, w1)
             | Inr challenge \<Rightarrow>
                 (case challenge_token challenge of
                    Inl e \<Rightarrow> Some (Inl e, w1)
                  | Inr token \<Rightarrow>
                      let keyauthorization = token @ ''.'' @ account_thumbprint;
                          wellknown_path = os_path_join acme_dir token;
                          w2 = write_file wellknown_path keyauthorization w1;
                          wellknown_url = wellknown_url_of domain token
                      in (case self_check L N wellknown_url wellknown_path keyauthorization w2 of
                            (Inl e, w3) \<Rightarrow> Some (Inl e, w3)
                          | (Inr u, w3) \<Rightarrow>
                              (case getitem challenge ''uri'' of
                                 Inl e \<Rightarrow> Some (Inl e, w3)
                               | Inr uri \<Rightarrow>
                                   (case send_signed L N account_key CA uri header
                                           (challenge_payload keyauthorization) w3 of
                                      (Inl e, w4) \<Rightarrow> Some (Inl e, w4)
                                    | (Inr (code2, result2), w4) \<Rightarrow>
                                        if code2 \<noteq> Some 202
                                        then Some (Inl (ValueError
                                               (Error_triggering_challenge code2 result2)), w4)
                                        else
                                          (case uri of
                                             JStr u \<Rightarrow>
                                               wait_for_challenge L N u domain wellknown_path w4
                                           | other \<Rightarrow> Some (Inl AttributeError, w4))))))))"

section \<open>Issuing the certificate\<close>

text \<open>The \<^verbatim>\<open>for\<close> loop of line 148: an exception of one iteration ends the loop.\<close>

fun verify_domains ::
  "('key, 'csr, 'cert) pylib \<Rightarrow> network \<Rightarrow> 'key \<Rightarrow> path \<Rightarrow> url \<Rightarrow> dict \<Rightarrow> string
     \<Rightarrow> string list \<Rightarrow> world \<Rightarrow> ((error + unit) \<times> world) option" where
  "verify_domains L N account_key acme_dir CA header thumb [] w = Some (Inr (), w)"
| "verify_domains L N account_key acme_dir CA header thumb (domain # domains) w =
     (case verify_domain L N account_key acme_dir CA header thumb domain w of
        None \<Rightarrow> None
      | Some (Inl e, w1) \<Rightarrow> Some (Inl e, w1)
      | Some (Inr u, w1) \<Rightarrow> verify_domains L N account_key acme_dir CA header thumb domains w1)"

definition new_cert_payload :: "('key, 'csr, 'cert) pylib \<Rightarrow> 'csr \<Rightarrow> json" where
  "new_cert_payload L csr =
     JObj [(''resource'', JStr ''new-cert''),
           (''csr'', JStr (base64_enc L (dump_certificate_request L csr)))]"

text \<open>Lines 144-145; \<^verbatim>\<open>header['jwk']\<close> is a lookup in a dict.\<close>

definition thumbprint :: "('key, 'csr, 'cert) pylib \<Rightarrow> dict \<Rightarrow> error + string" where
  "thumbprint L header =
     (case map_of header ''jwk'' of
        None \<Rightarrow> Inl (KeyError ''jwk'')
      | Some jwk \<Rightarrow> Inr (base64_enc L (sha256_digest L (json_dumps_sorted L jwk))))"

text \<open>Lines 205-217, after the loop.\<close>

definition sign_certificate ::
  "('key, 'csr, 'cert) pylib \<Rightarrow> network \<Rightarrow> 'key \<Rightarrow> 'csr \<Rightarrow> url \<Rightarrow> dict \<Rightarrow> world
     \<Rightarrow> (error + 'cert) \<times> world" where
  "sign_certificate L N account_key csr CA header w =
     (case send_signed L N account_key CA (JStr (CA @ ''/acme/new-cert'')) header
             (new_cert_payload L csr) w of
        (Inl e, w1) \<Rightarrow> (Inl e, w1)
      | (Inr (code, result), w1) \<Rightarrow>
          if code \<noteq> Some 201
          then (Inl (ValueError (Error_signing_certificate code result)), w1)
          else (case load_certificate L result of
                  None \<Rightarrow> (Inl CryptoError, w1)
                | Some cert \<Rightarrow> (Inr cert, w1)))"

text \<open>\<^verbatim>\<open>get_crt_from_csr\<close>, lines 142-217.\<close>

definition get_crt_from_csr ::
  "('key, 'csr, 'cert) pylib \<Rightarrow> network \<Rightarrow> 'key \<Rightarrow> 'csr \<Rightarrow> string list \<Rightarrow> path \<Rightarrow> url \<Rightarrow> world
     \<Rightarrow> ((error + 'cert) \<times> world) option" where
  "get_crt_from_csr L N account_key csr domains acme_dir CA w =
     (case acme_header L account_key of
        Inl e \<Rightarrow> Some (Inl e, w)
      | Inr header \<Rightarrow>
          (case thumbprint L header of
             Inl e \<Rightarrow> Some (Inl e, w)
           | Inr account_thumbprint \<Rightarrow>
               (case verify_domains L N account_key acme_dir CA header account_thumbprint
                       domains w of
                  None \<Rightarrow> None
                | Some (Inl e, w1) \<Rightarrow> Some (Inl e, w1)
                | Some (Inr u, w1) \<Rightarrow> Some (sign_certificate L N account_key csr CA header w1))))"

section \<open>Configuration\<close>

text \<open>
  From \<^verbatim>\<open>configuration.py\<close>: the defaults of lines 25-27, \<^verbatim>\<open>update_config_value\<close>
  (lines 48-53) and the part of \<^verbatim>\<open>parse_config_entry\<close> that resolves the authority
  (lines 66-75). An entry is a pair of the domains string and the data loaded from the
  file; the global configuration is a dict.
\<close>

definition DEFAULT_API :: string where
  "DEFAULT_API = ''v1''"

definition DEFAULT_AUTHORITY :: string where
  "DEFAULT_AUTHORITY = ''https://acme-v01.api.letsencrypt.org''"

definition DEFAULT_AUTHORITY_AGREEMENT :: string where
  "DEFAULT_AUTHORITY_AGREEMENT = ''https://letsencrypt.org/documents/LE-SA-v1.2-November-15-2017.pdf''"

text \<open>
  \<^verbatim>\<open>name in x\<close>: a substring of a string, an element of a list, a key of a dict; a
  \<^verbatim>\<open>TypeError\<close> for anything else.
\<close>

definition contains :: "string \<Rightarrow> json \<Rightarrow> error + bool" where
  "contains name x =
     (case x of
        JStr s \<Rightarrow> Inr (sublist name s)
      | JArr xs \<Rightarrow> Inr (JStr name \<in> set xs)
      | JObj kvs \<Rightarrow> Inr (name \<in> set (map fst kvs))
      | _ \<Rightarrow> Inl TypeError)"

fun filter_contains :: "string \<Rightarrow> json list \<Rightarrow> error + json list" where
  "filter_contains name [] = Inr []"
| "filter_contains name (x # xs) =
     (case contains name x of
        Inl e \<Rightarrow> Inl e
      | Inr b \<Rightarrow>
          (case filter_contains name xs of
             Inl e \<Rightarrow> Inl e
           | Inr r \<Rightarrow> Inr (if b then x # r else r)))"

definition update_config_value ::
  "dict \<Rightarrow> string \<Rightarrow> json list \<Rightarrow> dict \<Rightarrow> json \<Rightarrow> error + dict" where
  "update_config_value config name localconfig globalconfig default_value =
     (case filter_contains name localconfig of
        Inl e \<Rightarrow> Inl e
      | Inr values \<Rightarrow>
          if length values > 0 then Inr (AList.update name (hd values) config)
          else Inr (AList.update name
                 (case map_of globalconfig name of None \<Rightarrow> default_value | Some v \<Rightarrow> v) config))"

definition parse_config_entry_authority :: "string \<times> json \<Rightarrow> dict \<Rightarrow> error + dict" where
  "parse_config_entry_authority entry globalconfig =
     (let localconfig = [JStr (fst entry), snd entry];
          config = [(''defaults'',
                     (case map_of globalconfig ''defaults'' of None \<Rightarrow> JObj [] | Some d \<Rightarrow> d))]
      in (case update_config_value config ''api'' localconfig globalconfig (JStr DEFAULT_API) of
            Inl e \<Rightarrow> Inl e
          | Inr config1 \<Rightarrow>
              (case update_config_value config1 ''authority'' localconfig globalconfig
                      (JStr DEFAULT_AUTHORITY) of
                 Inl e \<Rightarrow> Inl e
               | Inr config2 \<Rightarrow>
                   update_config_value config2 ''authority_agreement'' localconfig globalconfig
                     (JStr DEFAULT_AUTHORITY_AGREEMENT))))"

section \<open>What the network answered\<close>

text \<open>
  The status and the body of an HTTP response, whether \<^verbatim>\<open>urlopen\<close> returned it or
  raised it as an \<^verbatim>\<open>HTTPError\<close>; \<open>None\<close> when there was no response.
\<close>

definition http_status :: "urlresult \<Rightarrow> (int \<times> bytes) option" where
  "http_status r =
     (case r of
        Response code h body \<Rightarrow> Some (code, body)
      | Raises_IOError (HTTPError code body) \<Rightarrow> Some (code, body)
      | _ \<Rightarrow> None)"

text \<open>
  What the answer to a poll says: the decoded payload and its \<^verbatim>\<open>status\<close>. \<open>None\<close>
  when \<^verbatim>\<open>urlopen\<close> raised, or the body is not JSON with a status.
\<close>

definition poll_status ::
  "('key, 'csr, 'cert) pylib \<Rightarrow> urlresult \<Rightarrow> (json \<times> json) option" where
  "poll_status L r =
     (case r of
        Response code h body \<Rightarrow>
          (case loads_utf8 L body of
             Inl e \<Rightarrow> None
           | Inr challenge_status \<Rightarrow>
               (case getitem challenge_status ''status'' of
                  Inl e \<Rightarrow> None
                | Inr status \<Rightarrow> Some (challenge_status, status)))
      | _ \<Rightarrow> None)"

text \<open>The trace after \<open>k\<close> polls that were each followed by a sleep of 2 seconds.\<close>

definition poll_trace :: "event list \<Rightarrow> url \<Rightarrow> nat \<Rightarrow> event list" where
  "poll_trace t uri k = t @ concat (replicate k [Get uri, Sleep 2])"

section \<open>Examples to run the model on\<close>

text \<open>
  A library and networks for concrete runs. The library functions are stand-ins: JSON
  texts are decoded by a table, and what the encoders and the cryptography return is
  fixed. The authority of the example answers under \<^verbatim>\<open>https://ca\<close>; it offers the
  HTTP-01 challenge with the token \<^verbatim>\<open>tok/1.x\<close> at \<^verbatim>\<open>https://ca/chal/1\<close>.
\<close>

declare wait_for_challenge.simps [code]

definition authz_body :: bytes where
  \<open>authz_body = ''{"challenges": [{"type": "dns-01", "token": "d1", "uri": "https://ca/chal/0"}, {"type": "http-01", "token": "tok/1.x", "uri": "https://ca/chal/1"}]}''\<close>

definition authz_dns_only_body :: bytes where
  \<open>authz_dns_only_body = ''{"challenges": [{"type": "dns-01", "token": "d1", "uri": "https://ca/chal/0"}]}''\<close>

definition pending_body :: bytes where
  \<open>pending_body = ''{"status": "pending"}''\<close>

definition valid_body :: bytes where
  \<open>valid_body = ''{"status": "valid"}''\<close>

definition invalid_body :: bytes where
  \<open>invalid_body = ''{"status": "invalid", "error": "unauthorized"}''\<close>

definition example_loads :: "string \<Rightarrow> json option" where
  "example_loads s =
     (if s = authz_body then
        Some (JObj [(''challenges'', JArr [
          JObj [(''type'', JStr ''dns-01''), (''token'', JStr ''d1''),
                (''uri'', JStr ''https://ca/chal/0'')],
          JObj [(''type'', JStr ''http-01''), (''token'', JStr ''tok/1.x''),
                (''uri'', JStr ''https://ca/chal/1'')]])])
      else if s = authz_dns_only_body then
        Some (JObj [(''challenges'', JArr [
          JObj [(''type'', JStr ''dns-01''), (''token'', JStr ''d1''),
                (''uri'', JStr ''https://ca/chal/0'')]])])
      else if s = pending_body then Some (JObj [(''status'', JStr ''pending'')])
      else if s = valid_body then Some (JObj [(''status'', JStr ''valid'')])
      else if s = invalid_body then
        Some (JObj [(''status'', JStr ''invalid''), (''error'', JStr ''unauthorized'')])
      else None)"

definition example_lib :: "(unit, unit, string) pylib" where
  "example_lib =
     \<lparr>dump_privatekey_groups = (\<lambda>k. Some (''c3:5f'', ''10001'')),
      unhexlify = (\<lambda>s. Some s),
      urlsafe_b64encode = (\<lambda>b. b),
      json_dumps = (\<lambda>j. ''json''),
      json_dumps_sorted = (\<lambda>j. ''jwk''),
      json_loads = example_loads,
      decode_utf8 = Some,
      sha256_digest = (\<lambda>b. ''THUMB''),
      crypto_sign = (\<lambda>k d g. ''signature''),
      dump_certificate_request = (\<lambda>c. ''csr''),
      load_certificate = Some\<rparr>"

text \<open>
  The network of the examples, given the body of the answer to new-authz, the body the
  web server of the domain serves, and the bodies of the answers to the polls (the last
  one is repeated). The first new-reg creates the account, a later one finds it.
\<close>

definition example_net :: "bytes \<Rightarrow> bytes \<Rightarrow> bytes list \<Rightarrow> network" where
  "example_net authz served polls t =
     (case last t of
        Get u \<Rightarrow>
          if u = ''https://ca/directory'' then Response 200 (Some ''nonce'') []
          else if u = ''https://ca/chal/1''
          then Response 202 None
                 (polls ! min (length (filter (\<lambda>e. e = Get ''https://ca/chal/1'') t) - 1)
                              (length polls - 1))
          else Response 200 None served
      | Post u d \<Rightarrow>
          if u = ''https://ca/acme/new-authz'' then Response 201 None authz
          else if u = ''https://ca/chal/1'' then Response 202 None []
          else if u = ''https://ca/acme/new-cert'' then Response 201 None ''certificate''
          else if u = ''https://ca/acme/new-reg''
          then (if length (filter (\<lambda>e. case e of
                                           Post v d2 \<Rightarrow> v = ''https://ca/acme/new-reg''
                                         | _ \<Rightarrow> False) t) = 1
                then Response 201 None ''created''
                else Raises_IOError (HTTPError 409 ''conflict''))
          else Raises_IOError (HTTPError 404 ''not found'')
      | _ \<Rightarrow> Raises_other)"

text \<open>A network on which the directory answers and every POST fails to connect.\<close>

definition unreachable_net :: network where
  "unreachable_net t =
     (case last t of
        Get u \<Rightarrow> Response 200 (Some ''nonce'') []
      | _ \<Rightarrow> Raises_IOError (URLError ''<urlopen error [Errno 111] Connection refused>''))"

definition world0 :: world where
  "world0 = \<lparr>trace = [], files = Map.empty\<rparr>"

text \<open>
  A library whose encoders show what they are given: \<^verbatim>\<open>json.dumps\<close> writes the JSON
  text (without escapes), the base64 stand-in wraps its argument and pads it with
  \<^verbatim>\<open>==\<close>, and the signature stand-in shows the digest and the signed string. On
  \<open>nonce_net\<close> the first request to a URL is answered with the nonce \<^verbatim>\<open>n1\<close>, every
  later one with \<^verbatim>\<open>n2\<close>.
\<close>

fun digits :: "nat \<Rightarrow> string" where
  "digits n = (if n < 10 then [char_of (48 + n)] else digits (n div 10) @ [char_of (48 + n mod 10)])"

fun join :: "string \<Rightarrow> string list \<Rightarrow> string" where
  "join sep [] = []"
| "join sep [x] = x"
| "join sep (x # y # ys) = x @ sep @ join sep (y # ys)"

primrec show_json :: "json \<Rightarrow> string" where
  "show_json JNull = ''null''"
| "show_json (JBool b) = (if b then ''true'' else ''false'')"
| "show_json (JInt i) = (if i < 0 then ''-'' else []) @ digits (nat \<bar>i\<bar>)"
| "show_json (JStr s) = [CHR 0x22] @ s @ [CHR 0x22]"
| "show_json (JArr xs) = ''['' @ join '','' (map show_json xs) @ '']''"
| "show_json (JObj kvs) =
     ''{'' @ join '',''
               (map (\<lambda>kv. [CHR 0x22] @ fst kv @ [CHR 0x22] @ '':'' @ snd kv)
                  (map (map_prod id show_json) kvs)) @ ''}''"

definition show_lib :: "(unit, unit, string) pylib" where
  "show_lib = example_lib\<lparr>json_dumps := show_json,
                           urlsafe_b64encode := (\<lambda>b. ''b64('' @ b @ '')==''),
                           crypto_sign := (\<lambda>k d g. g @ ''('' @ d @ '')'')\<rparr>"

definition nonce_net :: network where
  "nonce_net t =
     (case last t of
        Get u \<Rightarrow>
          Response 200
            (Some (if length (filter (\<lambda>e. e = Get u) t) = 1 then ''n1'' else ''n2'')) []
      | _ \<Rightarrow> Response 200 None [])"

section \<open>Signed requests: what is sent and what comes back\<close>

lemma send_signed_post:
  assumes "N (trace w @ [Get (CA @ ''/directory'')]) = Response c0 h b0"
  shows "send_signed L N key CA (JStr u) header payload w =
     ((case N (trace w @ [Get (CA @ ''/directory''),
                 Post u (signed_body L key header (nonce_value h) payload)]) of
         Response code h2 body \<Rightarrow> Inr (Some code, body)
       | Raises_IOError (HTTPError code body) \<Rightarrow> Inr (Some code, body)
       | Raises_IOError (URLError text) \<Rightarrow> Inr (None, text)
       | Raises_other \<Rightarrow> Inl UrlopenError),
      w\<lparr>trace := trace w @ [Get (CA @ ''/directory''),
                 Post u (signed_body L key header (nonce_value h) payload)]\<rparr>)"
  using assms
  by (simp add: send_signed_def urlopen_def Let_def split: urlresult.splits ioerror.splits)

lemma send_signed_files:
  "files (snd (send_signed L N key CA target header payload w)) = files w"
  by (simp add: send_signed_def urlopen_def Let_def
      split: urlresult.splits ioerror.splits json.splits)

text \<open>
  C3, as the code has it. Once the nonce is fetched, \<^verbatim>\<open>send_signed\<close> returns a pair
  for every HTTP response and for every \<^verbatim>\<open>IOError\<close> of the POST: the status and the
  body of a response that carries a status, whether \<^verbatim>\<open>urlopen\<close> returned it or raised
  it; and \<^verbatim>\<open>None\<close> with the text of the error for a failure that carries no status,
  which is returned and not raised. It raises only when \<^verbatim>\<open>urlopen\<close> raises something
  that is not an \<^verbatim>\<open>IOError\<close>.
\<close>

theorem send_signed_outcomes:
  assumes "N (trace w @ [Get (CA @ ''/directory'')]) = Response c0 h b0"
      and "r = N (trace w @ [Get (CA @ ''/directory''),
                    Post u (signed_body L key header (nonce_value h) payload)])"
  shows "(\<forall>code body. http_status r = Some (code, body) \<longrightarrow>
            fst (send_signed L N key CA (JStr u) header payload w) = Inr (Some code, body))
       \<and> (\<forall>text. r = Raises_IOError (URLError text) \<longrightarrow>
            fst (send_signed L N key CA (JStr u) header payload w) = Inr (None, text))
       \<and> (r \<noteq> Raises_other \<longrightarrow>
            (\<exists>res. fst (send_signed L N key CA (JStr u) header payload w) = Inr res))"
  using assms
  by (auto simp: send_signed_post http_status_def split: urlresult.splits ioerror.splits)

theorem send_signed_outcomes_witness:
  "example_net authz_body [] [valid_body] (trace world0 @ [Get (''https://ca'' @ ''/directory'')])
     = Response 200 (Some ''nonce'') []
   \<and> http_status (example_net authz_body [] [valid_body]
        (trace world0 @ [Get (''https://ca'' @ ''/directory''),
           Post ''https://ca/acme/new-authz''
             (signed_body example_lib () [] (nonce_value (Some ''nonce''))
                (new_authz_payload ''example.com''))]))
     = Some (201, authz_body)
   \<and> fst (send_signed example_lib (example_net authz_body [] [valid_body]) () ''https://ca''
        (JStr ''https://ca/acme/new-authz'') [] (new_authz_payload ''example.com'') world0)
     = Inr (Some 201, authz_body)"
  using send_signed_outcomes [of "example_net authz_body [] [valid_body]" world0 "''https://ca''"
      200 "Some ''nonce''" "[]" _ "''https://ca/acme/new-authz''" example_lib "()" "[]"
      "new_authz_payload ''example.com''"]
  by (simp add: example_net_def world0_def http_status_def)

text \<open>
  C3 as the specification states it fails: a POST that cannot connect carries no status,
  and \<^verbatim>\<open>send_signed\<close> returns \<^verbatim>\<open>(None, str(e))\<close> for it instead of raising.
\<close>

theorem send_signed_transport_failure_returned:
  "unreachable_net [Get ''https://ca/directory'',
       Post ''https://ca/acme/new-reg''
         (signed_body example_lib () [] (JStr ''nonce'') new_reg_payload)]
     = Raises_IOError (URLError ''<urlopen error [Errno 111] Connection refused>'')
   \<and> fst (send_signed example_lib unreachable_net () ''https://ca''
        (JStr ''https://ca/acme/new-reg'') [] new_reg_payload world0)
     = Inr (None, ''<urlopen error [Errno 111] Connection refused>'')"
  by (simp add: send_signed_def urlopen_def unreachable_net_def world0_def nonce_value_def)

section \<open>The file name of the proof\<close>

text \<open>
  C7. For every token, the sanitized name has the length of the token and only characters
  of \<^verbatim>\<open>[A-Za-z0-9_-]\<close>; at every position, a character of that class is kept and any
  other one is replaced by an underscore.
\<close>

theorem sanitize_chars:
  "length (sanitize t) = length t \<and>
   (\<forall>c \<in> set (sanitize t). token_char c) \<and>
   (\<forall>i < length t. sanitize t ! i = (if token_char (t ! i) then t ! i else CHR ''_''))"
  by (auto simp: sanitize_def token_char_def)

theorem sanitize_chars_witness:
  "sanitize ''a/b. c'' = ''a_b__c'' \<and> length (sanitize ''a/b. c'') = length ''a/b. c''
   \<and> list_all token_char (sanitize ''a/b. c'') \<and> sanitize ''a/b. c'' ! 1 = CHR ''_''"
  using sanitize_chars [of "''a/b. c''"]
  by (simp add: sanitize_def token_char_def)

section \<open>Registration: the answers of the authority\<close>

lemma register_account_post:
  assumes "acme_header L key = Inr header"
      and "N (trace w @ [Get (CA @ ''/directory'')]) = Response c0 h b0"
  shows "register_account L N key CA w =
     ((case N (trace w @ [Get (CA @ ''/directory''),
                 Post (CA @ ''/acme/new-reg'')
                   (signed_body L key header (nonce_value h) new_reg_payload)]) of
         Response code h2 body \<Rightarrow>
           if code = 201 then Inr True else if code = 409 then Inr False
           else Inl (ValueError (Error_registering (Some code) body))
       | Raises_IOError (HTTPError code body) \<Rightarrow>
           if code = 201 then Inr True else if code = 409 then Inr False
           else Inl (ValueError (Error_registering (Some code) body))
       | Raises_IOError (URLError text) \<Rightarrow> Inl (ValueError (Error_registering None text))
       | Raises_other \<Rightarrow> Inl UrlopenError),
      w\<lparr>trace := trace w @ [Get (CA @ ''/directory''),
                 Post (CA @ ''/acme/new-reg'')
                   (signed_body L key header (nonce_value h) new_reg_payload)]\<rparr>)"
  using assms
  by (simp add: register_account_def send_signed_post split: urlresult.splits ioerror.splits)

text \<open>
  C6. When the authority answers the new-reg request with a status, \<^verbatim>\<open>register_account\<close>
  returns \<open>True\<close> (registered) for 201 and \<open>False\<close> (already registered) for 409, and
  raises the \<^verbatim>\<open>ValueError\<close> of line 103 with the status and the body for any other
  status. Called a second time, in the world the first call left, with the authority
  answering 201 to the first request and 409 to the second, it returns \<open>True\<close> and then
  \<open>False\<close>, and no error.
\<close>

theorem register_account_outcomes:
  assumes hdr: "acme_header L key = Inr header"
      and nonce: "N (trace w @ [Get (CA @ ''/directory'')]) = Response c0 h b0"
      and answer: "http_status (N (trace w @ [Get (CA @ ''/directory''),
                      Post (CA @ ''/acme/new-reg'')
                        (signed_body L key header (nonce_value h) new_reg_payload)]))
                   = Some (code, body)"
      and after: "w1 = snd (register_account L N key CA w)"
  shows "fst (register_account L N key CA w) =
           (if code = 201 then Inr True else if code = 409 then Inr False
            else Inl (ValueError (Error_registering (Some code) body)))
       \<and> (code = 201 \<longrightarrow>
            (\<forall>c1 h1 b1 body1.
               N (trace w1 @ [Get (CA @ ''/directory'')]) = Response c1 h1 b1 \<longrightarrow>
               http_status (N (trace w1 @ [Get (CA @ ''/directory''),
                      Post (CA @ ''/acme/new-reg'')
                        (signed_body L key header (nonce_value h1) new_reg_payload)]))
                 = Some (409, body1) \<longrightarrow>
               fst (register_account L N key CA w1) = Inr False))"
proof -
  have first: "fst (register_account L N key CA w) =
           (if code = 201 then Inr True else if code = 409 then Inr False
            else Inl (ValueError (Error_registering (Some code) body)))"
    using answer register_account_post [where N = N, OF hdr nonce]
    by (auto simp: http_status_def split: urlresult.splits ioerror.splits)
  have second: "fst (register_account L N key CA w1) = Inr False"
    if "N (trace w1 @ [Get (CA @ ''/directory'')]) = Response c1 h1 b1"
      and "http_status (N (trace w1 @ [Get (CA @ ''/directory''),
                      Post (CA @ ''/acme/new-reg'')
                        (signed_body L key header (nonce_value h1) new_reg_payload)]))
                 = Some (409, body1)"
    for c1 h1 b1 body1
    using that(2) register_account_post [where N = N, OF hdr that(1)]
    by (auto simp: http_status_def split: urlresult.splits ioerror.splits)
  show ?thesis using first second by blast
qed

lemma example_header:
  "acme_header example_lib () =
     Inr [(''alg'', JStr ''RS256''),
          (''jwk'', JObj [(''e'', JStr ''010001''), (''kty'', JStr ''RSA''), (''n'', JStr ''c35f'')])]"
  by (simp add: acme_header_def example_lib_def base64_enc_def is_space_def)

theorem register_account_outcomes_witness:
  "fst (register_account example_lib (example_net authz_body [] [valid_body]) () ''https://ca'' world0)
     = Inr True
   \<and> fst (register_account example_lib (example_net authz_body [] [valid_body]) () ''https://ca''
        (snd (register_account example_lib (example_net authz_body [] [valid_body]) ()
                ''https://ca'' world0)))
     = Inr False"
proof -
  let ?N = "example_net authz_body [] [valid_body]"
  let ?H = "[(''alg'', JStr ''RS256''),
          (''jwk'', JObj [(''e'', JStr ''010001''), (''kty'', JStr ''RSA''), (''n'', JStr ''c35f'')])]"
  have n0: "?N (trace world0 @ [Get (''https://ca'' @ ''/directory'')]) = Response 200 (Some ''nonce'') []"
    by (simp add: example_net_def)
  have a0: "http_status (?N (trace world0 @ [Get (''https://ca'' @ ''/directory''),
                      Post (''https://ca'' @ ''/acme/new-reg'')
                        (signed_body example_lib () ?H (nonce_value (Some ''nonce'')) new_reg_payload)]))
                   = Some (201, ''created'')"
    by (simp add: example_net_def http_status_def world0_def)
  note outcomes = register_account_outcomes [where N = ?N, OF example_header n0 a0 refl]
  let ?w1 = "snd (register_account example_lib ?N () ''https://ca'' world0)"
  have w1: "trace ?w1 = [Get ''https://ca/directory'',
                 Post ''https://ca/acme/new-reg''
                   (signed_body example_lib () ?H (nonce_value (Some ''nonce'')) new_reg_payload)]"
    using register_account_post [where N = ?N, OF example_header n0] by (simp add: world0_def)
  have n1: "?N (trace ?w1 @ [Get (''https://ca'' @ ''/directory'')]) = Response 200 (Some ''nonce'') []"
    by (simp add: example_net_def)
  have a1: "http_status (?N (trace ?w1 @ [Get (''https://ca'' @ ''/directory''),
                      Post (''https://ca'' @ ''/acme/new-reg'')
                        (signed_body example_lib () ?H (nonce_value (Some ''nonce'')) new_reg_payload)]))
                   = Some (409, ''conflict'')"
    by (simp add: w1 example_net_def http_status_def)
  from outcomes n1 a1 show ?thesis by simp
qed

section \<open>The agreement and the protected header\<close>

lemma update_absent:
  "k \<notin> fst ` set al \<Longrightarrow> AList.update k v al = al @ [(k, v)]"
  by (induction al) auto

lemma update_config_value_sets:
  "update_config_value config name localconfig globalconfig d = Inr config'
   \<Longrightarrow> \<exists>v. config' = AList.update name v config"
  by (auto simp: update_config_value_def split: sum.splits if_splits)

lemma update_config_value_default:
  assumes "filter_contains name localconfig = Inr []"
      and "map_of globalconfig name = None"
  shows "update_config_value config name localconfig globalconfig d
           = Inr (AList.update name d config)"
  using assms by (simp add: update_config_value_def)

lemma parse_config_entry_authority_default:
  assumes "parse_config_entry_authority entry globalconfig = Inr config"
      and "filter_contains ''authority_agreement'' [JStr (fst entry), snd entry] = Inr []"
      and "map_of globalconfig ''authority_agreement'' = None"
  shows "map_of config ''authority_agreement'' = Some (JStr DEFAULT_AUTHORITY_AGREEMENT)"
  using assms
  by (auto simp: parse_config_entry_authority_def Let_def update_config_value_default
      update_conv' split: sum.splits)

text \<open>
  C10. For every account key and authority, the payload of the new-reg request carries
  the agreement URL written in line 94 (LE-SA v1.0.1). \<^verbatim>\<open>register_account\<close> takes no
  configuration: the \<^verbatim>\<open>authority_agreement\<close> that \<^verbatim>\<open>parse_config_entry\<close> resolves,
  which is the LE-SA v1.2 URL when neither the entry nor the global configuration gives
  one, is another value and is not sent.
\<close>

theorem register_account_agreement:
  assumes hdr: "acme_header L key = Inr header"
      and nonce: "N (trace w @ [Get (CA @ ''/directory'')]) = Response c0 h b0"
  shows "trace (snd (register_account L N key CA w)) =
           trace w @ [Get (CA @ ''/directory''),
             Post (CA @ ''/acme/new-reg'')
               (signed_body L key header (nonce_value h)
                  (JObj [(''resource'', JStr ''new-reg''),
                         (''agreement'',
                          JStr ''https://letsencrypt.org/documents/LE-SA-v1.0.1-July-27-2015.pdf'')]))]
       \<and> (parse_config_entry_authority entry globalconfig = Inr config \<longrightarrow>
          filter_contains ''authority_agreement'' [JStr (fst entry), snd entry] = Inr [] \<longrightarrow>
          map_of globalconfig ''authority_agreement'' = None \<longrightarrow>
            map_of config ''authority_agreement''
              = Some (JStr ''https://letsencrypt.org/documents/LE-SA-v1.2-November-15-2017.pdf'')
            \<and> getitem new_reg_payload ''agreement''
              = Inr (JStr ''https://letsencrypt.org/documents/LE-SA-v1.0.1-July-27-2015.pdf'')
            \<and> Some (JStr ''https://letsencrypt.org/documents/LE-SA-v1.0.1-July-27-2015.pdf'')
              \<noteq> map_of config ''authority_agreement'')"
proof -
  have sent: "trace (snd (register_account L N key CA w)) =
           trace w @ [Get (CA @ ''/directory''),
             Post (CA @ ''/acme/new-reg'')
               (signed_body L key header (nonce_value h)
                  (JObj [(''resource'', JStr ''new-reg''),
                         (''agreement'',
                          JStr ''https://letsencrypt.org/documents/LE-SA-v1.0.1-July-27-2015.pdf'')]))]"
    using register_account_post [where N = N, OF hdr nonce]
    by (simp add: new_reg_payload_def)
  have field: "getitem new_reg_payload ''agreement''
      = Inr (JStr ''https://letsencrypt.org/documents/LE-SA-v1.0.1-July-27-2015.pdf'')"
    by (simp add: getitem_def new_reg_payload_def)
  have resolved: "map_of config ''authority_agreement''
      = Some (JStr ''https://letsencrypt.org/documents/LE-SA-v1.2-November-15-2017.pdf'')"
    if "parse_config_entry_authority entry globalconfig = Inr config"
      and "filter_contains ''authority_agreement'' [JStr (fst entry), snd entry] = Inr []"
      and "map_of globalconfig ''authority_agreement'' = None"
    using parse_config_entry_authority_default [OF that]
    by (simp add: DEFAULT_AUTHORITY_AGREEMENT_def)
  show ?thesis using sent field resolved by simp
qed

theorem register_account_agreement_witness:
  "trace (snd (register_account example_lib (example_net authz_body [] [valid_body]) ()
                 ''https://ca'' world0)) =
     [Get ''https://ca/directory'',
      Post ''https://ca/acme/new-reg''
        (signed_body example_lib ()
           [(''alg'', JStr ''RS256''),
            (''jwk'', JObj [(''e'', JStr ''010001''), (''kty'', JStr ''RSA''),
                            (''n'', JStr ''c35f'')])]
           (JStr ''nonce'')
           (JObj [(''resource'', JStr ''new-reg''),
                  (''agreement'',
                   JStr ''https://letsencrypt.org/documents/LE-SA-v1.0.1-July-27-2015.pdf'')]))]
   \<and> parse_config_entry_authority (''example.com www.example.com'', JArr []) []
       = Inr [(''defaults'', JObj []), (''api'', JStr ''v1''),
              (''authority'', JStr ''https://acme-v01.api.letsencrypt.org''),
              (''authority_agreement'',
               JStr ''https://letsencrypt.org/documents/LE-SA-v1.2-November-15-2017.pdf'')]
   \<and> map_of [(''defaults'', JObj []), (''api'', JStr ''v1''),
              (''authority'', JStr ''https://acme-v01.api.letsencrypt.org''),
              (''authority_agreement'',
               JStr ''https://letsencrypt.org/documents/LE-SA-v1.2-November-15-2017.pdf'')]
        ''authority_agreement''
       \<noteq> Some (JStr ''https://letsencrypt.org/documents/LE-SA-v1.0.1-July-27-2015.pdf'')"
proof -
  let ?N = "example_net authz_body [] [valid_body]"
  have n0: "?N (trace world0 @ [Get (''https://ca'' @ ''/directory'')])
      = Response 200 (Some ''nonce'') []"
    by (simp add: example_net_def)
  have parsed: "parse_config_entry_authority (''example.com www.example.com'', JArr []) []
       = Inr [(''defaults'', JObj []), (''api'', JStr ''v1''),
              (''authority'', JStr ''https://acme-v01.api.letsencrypt.org''),
              (''authority_agreement'',
               JStr ''https://letsencrypt.org/documents/LE-SA-v1.2-November-15-2017.pdf'')]"
    by code_simp
  have none: "filter_contains ''authority_agreement''
      [JStr (fst (''example.com www.example.com'', JArr [])),
       snd (''example.com www.example.com'', JArr [])] = Inr []"
    by code_simp
  from register_account_agreement [where N = ?N and entry = "(''example.com www.example.com'', JArr [])"
      and globalconfig = "[]", OF example_header n0] parsed none
  show ?thesis by (simp add: world0_def nonce_value_def)
qed

text \<open>
  C8. A call of \<^verbatim>\<open>send_signed\<close> fetches a nonce from the directory and then posts
  the body built from the value it got. In that body, \<^verbatim>\<open>protected\<close> is the base64url
  encoding, without padding, of the JSON text of the header with the key \<^verbatim>\<open>nonce\<close> set
  to the fetched value: one more field when the header has no such key, and nothing else
  changed, so that the protected objects of two calls with the same header have the same
  keys and differ at most at \<^verbatim>\<open>nonce\<close>. The signature is \<^verbatim>\<open>crypto.sign\<close> with
  \<^verbatim>\<open>'sha256'\<close> over \<^verbatim>\<open>protected64 + "." + payload64\<close>, and the field \<^verbatim>\<open>header\<close> is
  the header as it was passed. On any store that holds the header, the lines build this
  same body and leave every object as it was: the store only gains the protected copy.
\<close>

theorem send_signed_protected:
  assumes "N (trace w @ [Get (CA @ ''/directory'')]) = Response c0 h b0"
      and "nonce = (case h of None \<Rightarrow> JNull | Some n \<Rightarrow> JStr n)"
      and "protected = AList.update ''nonce'' nonce header"
      and "protected64 = filter (\<lambda>c. c \<noteq> CHR ''='')
                           (urlsafe_b64encode L (json_dumps L (JObj protected)))"
      and "payload64 = filter (\<lambda>c. c \<noteq> CHR ''='') (urlsafe_b64encode L (json_dumps L payload))"
      and "signature = filter (\<lambda>c. c \<noteq> CHR ''='')
                         (urlsafe_b64encode L
                            (crypto_sign L key (protected64 @ ''.'' @ payload64) ''sha256''))"
      and "data = json_dumps L (JObj [(''header'', JObj header),
                                      (''protected'', JStr protected64),
                                      (''payload'', JStr payload64),
                                      (''signature'', JStr signature)])"
  shows "trace (snd (send_signed L N key CA (JStr u) header payload w)) =
           trace w @ [Get (CA @ ''/directory''), Post u data]
       \<and> map_of protected = (map_of header)(''nonce'' \<mapsto> nonce)
       \<and> (''nonce'' \<notin> fst ` set header \<longrightarrow> protected = header @ [(''nonce'', nonce)])
       \<and> (\<forall>nonce' k. k \<noteq> ''nonce'' \<longrightarrow>
             map_of protected k = map_of (AList.update ''nonce'' nonce' header) k)
       \<and> (\<forall>nonce'. map fst protected = map fst (AList.update ''nonce'' nonce' header))
       \<and> (\<forall>S a. a < length S \<longrightarrow> S ! a = header \<longrightarrow>
             build_request L key S a nonce payload = (data, S @ [protected]))"
proof -
  have built: "build_request L key S a nonce payload = (data, S @ [protected])"
    if "a < length S" and "S ! a = header" for S a
    using that unfolding assms(3-7)
    by (simp add: build_request_def deepcopy_def setitem_def base64_enc_def Let_def nth_append)
  have "signed_body L key header nonce payload = data"
    using built [of 0 "[header]"] by (simp add: signed_body_def)
  then have sent: "trace (snd (send_signed L N key CA (JStr u) header payload w)) =
           trace w @ [Get (CA @ ''/directory''), Post u data]"
    using assms(2) by (simp add: send_signed_post [where N = N, OF assms(1)] nonce_value_def)
  have fields: "map_of protected = (map_of header)(''nonce'' \<mapsto> nonce)"
    unfolding assms(3) by (simp add: update_conv')
  have added: "protected = header @ [(''nonce'', nonce)]" if "''nonce'' \<notin> fst ` set header"
    unfolding assms(3) using that by (rule update_absent)
  have differ: "map_of protected k = map_of (AList.update ''nonce'' nonce' header) k"
    if "k \<noteq> ''nonce''" for nonce' k
    unfolding assms(3) using that by (simp add: update_conv')
  have keys: "map fst protected = map fst (AList.update ''nonce'' nonce' header)" for nonce'
    unfolding assms(3) by (simp add: update_keys)
  show ?thesis
    using sent fields added differ keys built by blast
qed


theorem send_signed_protected_witness:
  \<open>trace (snd (send_signed show_lib nonce_net () ''https://ca'' (JStr ''https://ca/acme/new-reg'')
       [(''alg'', JStr ''RS256'')] (JObj [(''resource'', JStr ''new-reg'')]) world0)) =
     [Get ''https://ca/directory'',
      Post ''https://ca/acme/new-reg''
        ''{"header":{"alg":"RS256"},"protected":"b64({"alg":"RS256","nonce":"n1"})","payload":"b64({"resource":"new-reg"})","signature":"b64(sha256(b64({"alg":"RS256","nonce":"n1"}).b64({"resource":"new-reg"})))"}'']
   \<and> trace (snd (send_signed show_lib nonce_net () ''https://ca'' (JStr ''https://ca/acme/new-reg'')
       [(''alg'', JStr ''RS256'')] (JObj [(''resource'', JStr ''new-reg'')])
       (snd (send_signed show_lib nonce_net () ''https://ca'' (JStr ''https://ca/acme/new-reg'')
          [(''alg'', JStr ''RS256'')] (JObj [(''resource'', JStr ''new-reg'')]) world0)))) =
     [Get ''https://ca/directory'',
      Post ''https://ca/acme/new-reg''
        ''{"header":{"alg":"RS256"},"protected":"b64({"alg":"RS256","nonce":"n1"})","payload":"b64({"resource":"new-reg"})","signature":"b64(sha256(b64({"alg":"RS256","nonce":"n1"}).b64({"resource":"new-reg"})))"}'',
      Get ''https://ca/directory'',
      Post ''https://ca/acme/new-reg''
        ''{"header":{"alg":"RS256"},"protected":"b64({"alg":"RS256","nonce":"n2"})","payload":"b64({"resource":"new-reg"})","signature":"b64(sha256(b64({"alg":"RS256","nonce":"n2"}).b64({"resource":"new-reg"})))"}'']
   \<and> build_request show_lib () [[(''alg'', JStr ''RS256'')]] 0 (JStr ''n1'')
       (JObj [(''resource'', JStr ''new-reg'')]) =
     (''{"header":{"alg":"RS256"},"protected":"b64({"alg":"RS256","nonce":"n1"})","payload":"b64({"resource":"new-reg"})","signature":"b64(sha256(b64({"alg":"RS256","nonce":"n1"}).b64({"resource":"new-reg"})))"}'',
      [[(''alg'', JStr ''RS256'')], [(''alg'', JStr ''RS256''), (''nonce'', JStr ''n1'')]])\<close>
proof -
  let ?H = "[(''alg'', JStr ''RS256'')]"
  let ?P = "JObj [(''resource'', JStr ''new-reg'')]"
  let ?u = "''https://ca/acme/new-reg''"
  let ?w1 = "snd (send_signed show_lib nonce_net () ''https://ca'' (JStr ?u) ?H ?P world0)"
  have n1: "nonce_net (trace world0 @ [Get (''https://ca'' @ ''/directory'')])
      = Response 200 (Some ''n1'') []"
    by (simp add: nonce_net_def world0_def)
  note first = send_signed_protected [where N = nonce_net and L = show_lib and key = "()"
      and header = ?H and payload = ?P and u = ?u, OF n1 refl refl refl refl refl refl]
  have t1: "trace ?w1 = [Get ''https://ca/directory'',
      Post ?u (json_dumps show_lib (JObj [(''header'', JObj ?H),
        (''protected'', JStr (filter (\<lambda>c. c \<noteq> CHR ''='') (urlsafe_b64encode show_lib
           (json_dumps show_lib (JObj (AList.update ''nonce'' (JStr ''n1'') ?H)))))),
        (''payload'', JStr (filter (\<lambda>c. c \<noteq> CHR ''='') (urlsafe_b64encode show_lib
           (json_dumps show_lib ?P)))),
        (''signature'', JStr (filter (\<lambda>c. c \<noteq> CHR ''='') (urlsafe_b64encode show_lib
           (crypto_sign show_lib ()
              (filter (\<lambda>c. c \<noteq> CHR ''='') (urlsafe_b64encode show_lib
                 (json_dumps show_lib (JObj (AList.update ''nonce'' (JStr ''n1'') ?H)))) @ ''.'' @
               filter (\<lambda>c. c \<noteq> CHR ''='') (urlsafe_b64encode show_lib
                 (json_dumps show_lib ?P))) ''sha256''))))]))]"
    using first [THEN conjunct1] by (simp add: world0_def)
  have n2: "nonce_net (trace ?w1 @ [Get (''https://ca'' @ ''/directory'')])
      = Response 200 (Some ''n2'') []"
    unfolding t1 by (simp add: nonce_net_def)
  note second = send_signed_protected [where N = nonce_net and L = show_lib and key = "()"
      and header = ?H and payload = ?P and u = ?u, OF n2 refl refl refl refl refl refl]
  show ?thesis
    using first [THEN conjunct1] second [THEN conjunct1]
      first [THEN conjunct2, THEN conjunct2, THEN conjunct2, THEN conjunct2, THEN conjunct2,
        rule_format, of 0 "[?H]"]
    unfolding t1
    by (simp add: world0_def show_lib_def example_lib_def)
qed

section \<open>The polling loop\<close>

lemma poll_trace_Suc: "poll_trace t uri (Suc k) = poll_trace (t @ [Get uri, Sleep 2]) uri k"
  by (simp add: poll_trace_def)

lemma poll_trace_0: "poll_trace t uri 0 = t"
  by (simp add: poll_trace_def)

lemma wait_pending_step:
  assumes "poll_status L (N (trace w @ [Get uri])) = Some (st, JStr ''pending'')"
  shows "wait_for_challenge L N uri domain p w =
         wait_for_challenge L N uri domain p (w\<lparr>trace := trace w @ [Get uri, Sleep 2]\<rparr>)"
  using assms
  by (subst wait_for_challenge.simps)
     (auto simp: poll_status_def urlopen_def time_sleep_def
       split: urlresult.splits sum.splits)

lemma wait_final_step:
  assumes "poll_status L (N (trace w @ [Get uri])) = Some (st, s)"
      and "s \<noteq> JStr ''pending''"
      and "p \<in> dom (files w)"
  shows "wait_for_challenge L N uri domain p w =
         (if s = JStr ''valid''
          then Some (Inr (), w\<lparr>trace := trace w @ [Get uri, Remove p],
                               files := (files w)(p := None)\<rparr>)
          else Some (Inl (ValueError (Challenge_did_not_pass domain st)),
                     w\<lparr>trace := trace w @ [Get uri]\<rparr>))"
  using assms
  by (subst wait_for_challenge.simps)
     (auto simp: poll_status_def urlopen_def os_remove_def
       split: urlresult.splits sum.splits)


lemma wait_pending_steps:
  assumes "\<forall>k<n. \<exists>st. poll_status L (N (poll_trace (trace w) uri k @ [Get uri]))
                        = Some (st, JStr ''pending'')"
  shows "wait_for_challenge L N uri domain p w =
         wait_for_challenge L N uri domain p (w\<lparr>trace := poll_trace (trace w) uri n\<rparr>)"
  using assms
proof (induction n arbitrary: w)
  case 0
  then show ?case by (simp add: poll_trace_0)
next
  case (Suc n)
  from Suc.prems obtain st where
    first: "poll_status L (N (trace w @ [Get uri])) = Some (st, JStr ''pending'')"
    by (force simp: poll_trace_0)
  let ?w = "w\<lparr>trace := trace w @ [Get uri, Sleep 2]\<rparr>"
  have rest: "\<forall>k<n. \<exists>st. poll_status L (N (poll_trace (trace ?w) uri k @ [Get uri]))
                        = Some (st, JStr ''pending'')"
    using Suc.prems by (auto simp: poll_trace_Suc [symmetric])
  show ?case
    using wait_pending_step [where N = N and L = L, OF first, of domain p] Suc.IH [OF rest]
    by (simp add: poll_trace_Suc)
qed

lemma wait_never_returns:
  assumes "wait_for_challenge L N uri domain p w = Some y"
  shows "\<exists>k. \<forall>st. poll_status L (N (poll_trace (trace w) uri k @ [Get uri]))
                 \<noteq> Some (st, JStr ''pending'')"
proof (rule wait_for_challenge.raw_induct
    [where P = "\<lambda>L N uri domain p w y.
       \<exists>k. \<forall>st. poll_status L (N (poll_trace (trace w) uri k @ [Get uri]))
                 \<noteq> Some (st, JStr ''pending'')", OF _ assms])
  fix wait :: "('a, 'b, 'c) pylib \<Rightarrow> network \<Rightarrow> url \<Rightarrow> string \<Rightarrow> path \<Rightarrow> world
     \<Rightarrow> ((error + unit) \<times> world) option"
  fix L :: "('a, 'b, 'c) pylib" and N :: network and uri domain p and w :: world and y
  assume IH: "\<And>L N uri domain p w y. wait L N uri domain p w = Some y \<Longrightarrow>
      \<exists>k. \<forall>st. poll_status L (N (poll_trace (trace w) uri k @ [Get uri]))
                 \<noteq> Some (st, JStr ''pending'')"
  assume body: "(case urlopen N (Get uri) w of
      (Response code h body, w1) \<Rightarrow>
        (case loads_utf8 L body of Inl e \<Rightarrow> Some (Inl e, w1)
        | Inr challenge_status \<Rightarrow>
            (case getitem challenge_status ''status'' of
            Inl e \<Rightarrow> Some (Inl e, w1)
            | Inr status \<Rightarrow>
                if status = JStr ''pending''
                then wait L N uri domain p (time_sleep 2 w1)
                else if status = JStr ''valid''
                     then (case os_remove p w1 of
                          Inl e \<Rightarrow> Some (Inl e, w1)
                          | Inr w2 \<Rightarrow> Some (Inr (), w2))
                     else Some (Inl (ValueError (Challenge_did_not_pass domain challenge_status)),
                            w1)))
      | (Raises_IOError (HTTPError code body), w1) \<Rightarrow>
          (case loads_utf8 L body of Inl e \<Rightarrow> Some (Inl e, w1)
          | Inr j \<Rightarrow> Some (Inl (ValueError (Error_checking_challenge code j)), w1))
      | (Raises_IOError (URLError text), w1) \<Rightarrow> Some (Inl AttributeError, w1)
      | (Raises_other, w1) \<Rightarrow> Some (Inl UrlopenError, w1)) = Some y"
  show "\<exists>k. \<forall>st. poll_status L (N (poll_trace (trace w) uri k @ [Get uri]))
                 \<noteq> Some (st, JStr ''pending'')"
  proof (cases "\<exists>st. poll_status L (N (trace w @ [Get uri])) = Some (st, JStr ''pending'')")
    case False
    then have "\<forall>st. poll_status L (N (poll_trace (trace w) uri 0 @ [Get uri]))
                 \<noteq> Some (st, JStr ''pending'')"
      by (simp add: poll_trace_0)
    then show ?thesis by blast
  next
    case True
    then have "wait L N uri domain p (w\<lparr>trace := trace w @ [Get uri, Sleep 2]\<rparr>) = Some y"
      using body
      by (auto simp: poll_status_def urlopen_def time_sleep_def
          split: urlresult.splits sum.splits)
    from IH [OF this] obtain k where
      "\<forall>st. poll_status L (N (poll_trace (trace w @ [Get uri, Sleep 2]) uri k @ [Get uri]))
                 \<noteq> Some (st, JStr ''pending'')"
      by auto
    then have "\<forall>st. poll_status L (N (poll_trace (trace w) uri (Suc k) @ [Get uri]))
                 \<noteq> Some (st, JStr ''pending'')"
      by (simp add: poll_trace_Suc)
    then show ?thesis by blast
  qed
qed

text \<open>
  C2. Whatever the authority answers to the polls: if it answers \<^verbatim>\<open>pending\<close> to the
  first \<open>n\<close> polls and something else to the next one, the loop has polled \<open>n + 1\<close>
  times, with a sleep of 2 seconds after each of the first \<open>n\<close>; on \<^verbatim>\<open>valid\<close> it
  removes the proof file and ends the domain without an error; on any other status it
  raises the \<^verbatim>\<open>ValueError\<close> of line 201 with the whole decoded payload, and the file
  stays. If the authority answers \<^verbatim>\<open>pending\<close> forever, the loop never returns: there
  is no cap.
\<close>

theorem wait_for_challenge_outcomes:
  "(\<forall>n st s.
      (\<forall>k<n. \<exists>st'. poll_status L (N (poll_trace (trace w) uri k @ [Get uri]))
                       = Some (st', JStr ''pending'')) \<longrightarrow>
      poll_status L (N (poll_trace (trace w) uri n @ [Get uri])) = Some (st, s) \<longrightarrow>
      s \<noteq> JStr ''pending'' \<longrightarrow>
      wellknown_path \<in> dom (files w) \<longrightarrow>
        wait_for_challenge L N uri domain wellknown_path w =
          (if s = JStr ''valid''
           then Some (Inr (),
                  w\<lparr>trace := poll_trace (trace w) uri n @ [Get uri, Remove wellknown_path],
                    files := (files w)(wellknown_path := None)\<rparr>)
           else Some (Inl (ValueError (Challenge_did_not_pass domain st)),
                  w\<lparr>trace := poll_trace (trace w) uri n @ [Get uri]\<rparr>)))
   \<and> ((\<forall>k. \<exists>st'. poll_status L (N (poll_trace (trace w) uri k @ [Get uri]))
                     = Some (st', JStr ''pending'')) \<longrightarrow>
        wait_for_challenge L N uri domain wellknown_path w = None)"
proof (intro conjI allI impI)
  fix n st s
  assume pending: "\<forall>k<n. \<exists>st'. poll_status L (N (poll_trace (trace w) uri k @ [Get uri]))
                       = Some (st', JStr ''pending'')"
    and final: "poll_status L (N (poll_trace (trace w) uri n @ [Get uri])) = Some (st, s)"
    and s: "s \<noteq> JStr ''pending''"
    and present: "wellknown_path \<in> dom (files w)"
  let ?w = "w\<lparr>trace := poll_trace (trace w) uri n\<rparr>"
  have "wait_for_challenge L N uri domain wellknown_path w =
        wait_for_challenge L N uri domain wellknown_path ?w"
    by (rule wait_pending_steps [OF pending])
  also have "\<dots> = (if s = JStr ''valid''
           then Some (Inr (),
                  ?w\<lparr>trace := trace ?w @ [Get uri, Remove wellknown_path],
                    files := (files ?w)(wellknown_path := None)\<rparr>)
           else Some (Inl (ValueError (Challenge_did_not_pass domain st)),
                  ?w\<lparr>trace := trace ?w @ [Get uri]\<rparr>))"
    using final s present by (intro wait_final_step) simp_all
  finally show "wait_for_challenge L N uri domain wellknown_path w =
          (if s = JStr ''valid''
           then Some (Inr (),
                  w\<lparr>trace := poll_trace (trace w) uri n @ [Get uri, Remove wellknown_path],
                    files := (files w)(wellknown_path := None)\<rparr>)
           else Some (Inl (ValueError (Challenge_did_not_pass domain st)),
                  w\<lparr>trace := poll_trace (trace w) uri n @ [Get uri]\<rparr>))"
    by simp
next
  assume always: "\<forall>k. \<exists>st'. poll_status L (N (poll_trace (trace w) uri k @ [Get uri]))
                     = Some (st', JStr ''pending'')"
  show "wait_for_challenge L N uri domain wellknown_path w = None"
  proof (cases "wait_for_challenge L N uri domain wellknown_path w")
    case None
    then show ?thesis .
  next
    case (Some y)
    from wait_never_returns [OF Some] always show ?thesis by blast
  qed
qed


lemma example_poll_status:
  "poll_status example_lib (Response c h pending_body)
     = Some (JObj [(''status'', JStr ''pending'')], JStr ''pending'')"
  "poll_status example_lib (Response c h valid_body)
     = Some (JObj [(''status'', JStr ''valid'')], JStr ''valid'')"
  "poll_status example_lib (Response c h invalid_body)
     = Some (JObj [(''status'', JStr ''invalid''), (''error'', JStr ''unauthorized'')],
             JStr ''invalid'')"
  by (simp_all add: poll_status_def loads_utf8_def example_lib_def example_loads_def getitem_def
      authz_body_def authz_dns_only_body_def pending_body_def valid_body_def invalid_body_def)

theorem wait_for_challenge_outcomes_witness:
  "wait_for_challenge example_lib
       (example_net authz_body [] [pending_body, pending_body, valid_body])
       ''https://ca/chal/1'' ''example.com'' ''/var/acme/tok_1_x''
       \<lparr>trace = [], files = [''/var/acme/tok_1_x'' \<mapsto> ''tok_1_x.THUMB'']\<rparr>
     = Some (Inr (),
         \<lparr>trace = [Get ''https://ca/chal/1'', Sleep 2, Get ''https://ca/chal/1'', Sleep 2,
                   Get ''https://ca/chal/1'', Remove ''/var/acme/tok_1_x''],
          files = Map.empty\<rparr>)
   \<and> wait_for_challenge example_lib (example_net authz_body [] [invalid_body])
       ''https://ca/chal/1'' ''example.com'' ''/var/acme/tok_1_x''
       \<lparr>trace = [], files = [''/var/acme/tok_1_x'' \<mapsto> ''tok_1_x.THUMB'']\<rparr>
     = Some (Inl (ValueError (Challenge_did_not_pass ''example.com''
                    (JObj [(''status'', JStr ''invalid''), (''error'', JStr ''unauthorized'')]))),
         \<lparr>trace = [Get ''https://ca/chal/1''],
          files = [''/var/acme/tok_1_x'' \<mapsto> ''tok_1_x.THUMB'']\<rparr>)
   \<and> wait_for_challenge example_lib (example_net authz_body [] [pending_body])
       ''https://ca/chal/1'' ''example.com'' ''/var/acme/tok_1_x''
       \<lparr>trace = [], files = [''/var/acme/tok_1_x'' \<mapsto> ''tok_1_x.THUMB'']\<rparr>
     = None"
proof -
  let ?u = "''https://ca/chal/1''"
  let ?w = "\<lparr>trace = [], files = [''/var/acme/tok_1_x'' \<mapsto> ''tok_1_x.THUMB'']\<rparr>"
  let ?N3 = "example_net authz_body [] [pending_body, pending_body, valid_body]"
  let ?Ni = "example_net authz_body [] [invalid_body]"
  let ?Np = "example_net authz_body [] [pending_body]"
  have p3: "\<forall>k<2. \<exists>st'. poll_status example_lib (?N3 (poll_trace (trace ?w) ?u k @ [Get ?u]))
                       = Some (st', JStr ''pending'')"
    by (simp add: less_Suc_eq numeral_2_eq_2 poll_trace_def example_net_def example_poll_status)
  have f3: "poll_status example_lib (?N3 (poll_trace (trace ?w) ?u 2 @ [Get ?u]))
      = Some (JObj [(''status'', JStr ''valid'')], JStr ''valid'')"
    by (simp add: numeral_2_eq_2 poll_trace_def example_net_def example_poll_status)
  have fi: "poll_status example_lib (?Ni (poll_trace (trace ?w) ?u 0 @ [Get ?u]))
      = Some (JObj [(''status'', JStr ''invalid''), (''error'', JStr ''unauthorized'')],
              JStr ''invalid'')"
    by (simp add: poll_trace_def example_net_def example_poll_status)
  have pp: "\<forall>k. \<exists>st'. poll_status example_lib (?Np (poll_trace (trace ?w) ?u k @ [Get ?u]))
                       = Some (st', JStr ''pending'')"
    by (simp add: example_net_def example_poll_status)
  have valid: "wait_for_challenge example_lib ?N3 ?u ''example.com'' ''/var/acme/tok_1_x'' ?w
     = Some (Inr (),
         \<lparr>trace = [Get ?u, Sleep 2, Get ?u, Sleep 2, Get ?u, Remove ''/var/acme/tok_1_x''],
          files = Map.empty\<rparr>)"
    using wait_for_challenge_outcomes [where L = example_lib and N = ?N3 and w = ?w and uri = ?u
        and domain = "''example.com''" and wellknown_path = "''/var/acme/tok_1_x''",
        THEN conjunct1, rule_format, OF p3 [rule_format] f3]
    by (simp add: poll_trace_def numeral_2_eq_2)
  have invalid: "wait_for_challenge example_lib ?Ni ?u ''example.com'' ''/var/acme/tok_1_x'' ?w
     = Some (Inl (ValueError (Challenge_did_not_pass ''example.com''
                    (JObj [(''status'', JStr ''invalid''), (''error'', JStr ''unauthorized'')]))),
         \<lparr>trace = [Get ?u], files = [''/var/acme/tok_1_x'' \<mapsto> ''tok_1_x.THUMB'']\<rparr>)"
    using wait_for_challenge_outcomes [where L = example_lib and N = ?Ni and w = ?w and uri = ?u
        and domain = "''example.com''" and wellknown_path = "''/var/acme/tok_1_x''",
        THEN conjunct1, rule_format, OF _ fi]
    by (simp add: poll_trace_def)
  have never: "wait_for_challenge example_lib ?Np ?u ''example.com'' ''/var/acme/tok_1_x'' ?w
     = None"
    using wait_for_challenge_outcomes [where L = example_lib and N = ?Np and w = ?w and uri = ?u
        and domain = "''example.com''" and wellknown_path = "''/var/acme/tok_1_x''"] pp
    by blast
  show ?thesis using valid invalid never by simp
qed

section \<open>One domain: challenge, proof file, self-check, trigger\<close>

lemma world_updates:
  fixes w :: world
  shows "w\<lparr>trace := a\<rparr> = \<lparr>trace = a, files = files w\<rparr>"
    and "w\<lparr>files := b\<rparr> = \<lparr>trace = trace w, files = b\<rparr>"
  by (cases w, simp)+

lemma filter_http01_none:
  assumes "\<forall>c \<in> set cs. \<exists>t. getitem c ''type'' = Inr t \<and> t \<noteq> JStr ''http-01''"
  shows "filter_http01 cs = Inr []"
  using assms by (induction cs) auto

lemma self_check_result:
  "self_check L N url path ka (write_file path ka w1) =
     (case N (trace w1 @ [Write path ka, Get url]) of
        Raises_other \<Rightarrow>
          (Inl UrlopenError,
           \<lparr>trace = trace w1 @ [Write path ka, Get url], files = (files w1)(path \<mapsto> ka)\<rparr>)
      | Raises_IOError e \<Rightarrow>
          (Inl (ValueError (Couldnt_download path url)),
           \<lparr>trace = trace w1 @ [Write path ka, Get url, Remove path],
             files = (files w1)(path := None)\<rparr>)
      | Response c h body \<Rightarrow>
          (case decode_utf8 L body of
             None \<Rightarrow>
               (Inl UnicodeDecodeError,
                \<lparr>trace = trace w1 @ [Write path ka, Get url],
                  files = (files w1)(path \<mapsto> ka)\<rparr>)
           | Some text \<Rightarrow>
               if strip text = ka
               then (Inr (),
                     \<lparr>trace = trace w1 @ [Write path ka, Get url],
                       files = (files w1)(path \<mapsto> ka)\<rparr>)
               else (Inl (ValueError (Couldnt_download path url)),
                     \<lparr>trace = trace w1 @ [Write path ka, Get url, Remove path],
                       files = (files w1)(path := None)\<rparr>)))"
  by (simp add: self_check_def self_check_failed_def urlopen_def write_file_def os_remove_def
      world_updates split: urlresult.splits option.splits)

lemma verify_domain_published:
  assumes "send_signed L N key CA (JStr (CA @ ''/acme/new-authz'')) header
             (new_authz_payload domain) w = (Inr (Some 201, result), w1)"
      and "select_challenge L result = Inr challenge"
      and "getitem challenge ''token'' = Inr (JStr t)"
      and "ka = sanitize t @ ''.'' @ thumb"
      and "path = os_path_join acme_dir (sanitize t)"
      and "url = wellknown_url_of domain (sanitize t)"
  shows "verify_domain L N key acme_dir CA header thumb domain w =
     (case self_check L N url path ka (write_file path ka w1) of
        (Inl e, w3) \<Rightarrow> Some (Inl e, w3)
      | (Inr x, w3) \<Rightarrow>
          (case getitem challenge ''uri'' of
             Inl e \<Rightarrow> Some (Inl e, w3)
           | Inr uri \<Rightarrow>
               (case send_signed L N key CA uri header (challenge_payload ka) w3 of
                  (Inl e, w4) \<Rightarrow> Some (Inl e, w4)
                | (Inr (code2, result2), w4) \<Rightarrow>
                    if code2 \<noteq> Some 202
                    then Some (Inl (ValueError (Error_triggering_challenge code2 result2)), w4)
                    else (case uri of
                            JStr u \<Rightarrow> wait_for_challenge L N u domain path w4
                          | other \<Rightarrow> Some (Inl AttributeError, w4)))))"
  using assms(1-3) unfolding assms(4-6)
  by (simp add: verify_domain_def challenge_token_def Let_def
      split: prod.splits sum.splits json.splits)

lemma verify_domain_self_check_failed:
  assumes "send_signed L N key CA (JStr (CA @ ''/acme/new-authz'')) header
             (new_authz_payload domain) w = (Inr (Some 201, result), w1)"
      and "select_challenge L result = Inr challenge"
      and "getitem challenge ''token'' = Inr (JStr t)"
      and "ka = sanitize t @ ''.'' @ thumb"
      and "path = os_path_join acme_dir (sanitize t)"
      and "url = wellknown_url_of domain (sanitize t)"
      and "(\<exists>e. N (trace w1 @ [Write path ka, Get url]) = Raises_IOError e)
         \<or> (\<exists>c h body text. N (trace w1 @ [Write path ka, Get url]) = Response c h body
               \<and> decode_utf8 L body = Some text \<and> strip text \<noteq> ka)"
  shows "verify_domain L N key acme_dir CA header thumb domain w =
           Some (Inl (ValueError (Couldnt_download path url)),
                 \<lparr>trace = trace w1 @ [Write path ka, Get url, Remove path],
                   files = (files w1)(path := None)\<rparr>)"
  using assms(7)
  by (auto simp: verify_domain_published [OF assms(1-6)] self_check_result)

lemma verify_domain_triggered:
  assumes "send_signed L N key CA (JStr (CA @ ''/acme/new-authz'')) header
             (new_authz_payload domain) w = (Inr (Some 201, result), w1)"
      and "select_challenge L result = Inr challenge"
      and "getitem challenge ''token'' = Inr (JStr t)"
      and "ka = sanitize t @ ''.'' @ thumb"
      and "path = os_path_join acme_dir (sanitize t)"
      and "url = wellknown_url_of domain (sanitize t)"
      and "N (trace w1 @ [Write path ka, Get url]) = Response c h body"
      and "decode_utf8 L body = Some text"
      and "strip text = ka"
      and "getitem challenge ''uri'' = Inr (JStr u)"
      and "N (trace w1 @ [Write path ka, Get url, Get (CA @ ''/directory'')]) = Response c0 h0 b0"
      and "t4 = trace w1 @ [Write path ka, Get url, Get (CA @ ''/directory''),
                   Post u (signed_body L key header (nonce_value h0) (challenge_payload ka))]"
      and "w4 = \<lparr>trace = t4, files = (files w1)(path \<mapsto> ka)\<rparr>"
  shows "verify_domain L N key acme_dir CA header thumb domain w =
     (case N t4 of
        Response code h2 body2 \<Rightarrow>
          if code \<noteq> 202
          then Some (Inl (ValueError (Error_triggering_challenge (Some code) body2)), w4)
          else wait_for_challenge L N u domain path w4
      | Raises_IOError (HTTPError code body2) \<Rightarrow>
          if code \<noteq> 202
          then Some (Inl (ValueError (Error_triggering_challenge (Some code) body2)), w4)
          else wait_for_challenge L N u domain path w4
      | Raises_IOError (URLError text2) \<Rightarrow>
          Some (Inl (ValueError (Error_triggering_challenge None text2)), w4)
      | Raises_other \<Rightarrow> Some (Inl UrlopenError, w4))"
proof -
  let ?w3 = "\<lparr>trace = trace w1 @ [Write path ka, Get url], files = (files w1)(path \<mapsto> ka)\<rparr>"
  have check: "self_check L N url path ka (write_file path ka w1) = (Inr (), ?w3)"
    using assms(7-9) by (simp add: self_check_result)
  have nonce: "N (trace ?w3 @ [Get (CA @ ''/directory'')]) = Response c0 h0 b0"
    using assms(11) by simp
  show ?thesis
    unfolding assms(12,13)
    by (simp add: verify_domain_published [OF assms(1-6)] check assms(10)
        send_signed_post [where N = N, OF nonce] world_updates
        split: urlresult.splits ioerror.splits)
qed

lemma example_authz:
  "send_signed example_lib (example_net authz served polls) () ''https://ca''
     (JStr (''https://ca'' @ ''/acme/new-authz'')) header (new_authz_payload domain) world0
   = (Inr (Some 201, authz),
      \<lparr>trace = [Get ''https://ca/directory'',
                 Post ''https://ca/acme/new-authz''
                   (signed_body example_lib () header (JStr ''nonce'') (new_authz_payload domain))],
        files = Map.empty\<rparr>)"
  by (simp add: send_signed_def urlopen_def example_net_def world0_def nonce_value_def)

lemma example_select:
  "select_challenge example_lib authz_body
     = Inr (JObj [(''type'', JStr ''http-01''), (''token'', JStr ''tok/1.x''),
                  (''uri'', JStr ''https://ca/chal/1'')])"
  by (simp add: select_challenge_def loads_utf8_def example_lib_def example_loads_def
      getitem_def iterate_def authz_body_def)

lemma example_names:
  "sanitize ''tok/1.x'' = ''tok_1_x''"
  "os_path_join ''/var/acme'' ''tok_1_x'' = ''/var/acme/tok_1_x''"
  "wellknown_url_of ''example.com'' ''tok_1_x''
     = ''http://example.com/.well-known/acme-challenge/tok_1_x''"
  by (simp_all add: sanitize_def token_char_def os_path_join_def wellknown_url_of_def)

text \<open>
  C4. When the authority answers new-authz with 201 and a JSON object whose
  \<^verbatim>\<open>challenges\<close> is a list in which every entry has a type and none has the type
  \<^verbatim>\<open>http-01\<close>, the domain fails: the list of line 160 is empty and \<^verbatim>\<open>[0]\<close> raises
  \<^verbatim>\<open>IndexError\<close>, the error the source has at this place. Nothing was written and
  nothing more was requested.
\<close>

theorem no_http01_challenge:
  assumes "send_signed L N key CA (JStr (CA @ ''/acme/new-authz'')) header
             (new_authz_payload domain) w = (Inr (Some 201, result), w1)"
      and "loads_utf8 L result = Inr authz"
      and "getitem authz ''challenges'' = Inr (JArr cs)"
      and "\<forall>c \<in> set cs. \<exists>t. getitem c ''type'' = Inr t \<and> t \<noteq> JStr ''http-01''"
  shows "verify_domain L N key acme_dir CA header thumb domain w = Some (Inl IndexError, w1)
       \<and> files w1 = files w"
proof -
  have "select_challenge L result = Inl IndexError"
    using assms(2,3) filter_http01_none [OF assms(4)]
    by (simp add: select_challenge_def iterate_def)
  moreover have "files w1 = files w"
    using send_signed_files [of L N key CA "JStr (CA @ ''/acme/new-authz'')" header
        "new_authz_payload domain" w] assms(1)
    by simp
  ultimately show ?thesis
    using assms(1) by (simp add: verify_domain_def)
qed

theorem no_http01_challenge_witness:
  "verify_domain example_lib (example_net authz_dns_only_body [] [valid_body]) () ''/var/acme''
     ''https://ca'' [(''alg'', JStr ''RS256'')] ''THUMB'' ''example.com'' world0
   = Some (Inl IndexError,
       \<lparr>trace = [Get ''https://ca/directory'',
                 Post ''https://ca/acme/new-authz''
                   (signed_body example_lib () [(''alg'', JStr ''RS256'')] (JStr ''nonce'')
                      (new_authz_payload ''example.com''))],
        files = Map.empty\<rparr>)"
proof -
  have loaded: "loads_utf8 example_lib authz_dns_only_body
      = Inr (JObj [(''challenges'', JArr [
          JObj [(''type'', JStr ''dns-01''), (''token'', JStr ''d1''),
                (''uri'', JStr ''https://ca/chal/0'')]])])"
    by (simp add: loads_utf8_def example_lib_def example_loads_def authz_body_def
        authz_dns_only_body_def)
  have listed: "getitem (JObj [(''challenges'', JArr [
          JObj [(''type'', JStr ''dns-01''), (''token'', JStr ''d1''),
                (''uri'', JStr ''https://ca/chal/0'')]])]) ''challenges''
      = Inr (JArr [JObj [(''type'', JStr ''dns-01''), (''token'', JStr ''d1''),
                (''uri'', JStr ''https://ca/chal/0'')]])"
    by (simp add: getitem_def)
  have none: "\<forall>c \<in> set [JObj [(''type'', JStr ''dns-01''), (''token'', JStr ''d1''),
                (''uri'', JStr ''https://ca/chal/0'')]].
      \<exists>t. getitem c ''type'' = Inr t \<and> t \<noteq> JStr ''http-01''"
    by (simp add: getitem_def)
  from no_http01_challenge [OF example_authz loaded listed none]
  show ?thesis by simp
qed

text \<open>
  C5, as the code has it. When the fetch of the proof raises an \<^verbatim>\<open>IOError\<close>, or
  returns a body that, decoded and stripped of leading and trailing whitespace, is not
  the key authorization, the domain fails with the \<^verbatim>\<open>ValueError\<close> of line 175; the
  run has written the file, fetched it and removed it, the file is gone, and nothing was
  posted after the file was written.
\<close>

theorem self_check_failure:
  assumes "send_signed L N key CA (JStr (CA @ ''/acme/new-authz'')) header
             (new_authz_payload domain) w = (Inr (Some 201, result), w1)"
      and "select_challenge L result = Inr challenge"
      and "getitem challenge ''token'' = Inr (JStr t)"
      and "ka = sanitize t @ ''.'' @ thumb"
      and "path = os_path_join acme_dir (sanitize t)"
      and "url = wellknown_url_of domain (sanitize t)"
      and "(\<exists>e. N (trace w1 @ [Write path ka, Get url]) = Raises_IOError e)
         \<or> (\<exists>c h body text. N (trace w1 @ [Write path ka, Get url]) = Response c h body
               \<and> decode_utf8 L body = Some text \<and> strip text \<noteq> ka)"
  shows "\<exists>w'. verify_domain L N key acme_dir CA header thumb domain w =
                Some (Inl (ValueError (Couldnt_download path url)), w')
            \<and> trace w' = trace w1 @ [Write path ka, Get url, Remove path]
            \<and> files w' path = None
            \<and> (\<forall>u d. Post u d \<notin> set (drop (length (trace w1)) (trace w')))"
  using verify_domain_self_check_failed [where N = N, OF assms] by simp

theorem self_check_failure_witness:
  "\<exists>w'. verify_domain example_lib (example_net authz_body ''something else'' [valid_body]) ()
     ''/var/acme'' ''https://ca'' [(''alg'', JStr ''RS256'')] ''THUMB'' ''example.com'' world0
     = Some (Inl (ValueError (Couldnt_download ''/var/acme/tok_1_x''
                  ''http://example.com/.well-known/acme-challenge/tok_1_x'')), w')
     \<and> trace w' = [Get ''https://ca/directory'',
                 Post ''https://ca/acme/new-authz''
                   (signed_body example_lib () [(''alg'', JStr ''RS256'')] (JStr ''nonce'')
                      (new_authz_payload ''example.com'')),
                 Write ''/var/acme/tok_1_x'' ''tok_1_x.THUMB'',
                 Get ''http://example.com/.well-known/acme-challenge/tok_1_x'',
                 Remove ''/var/acme/tok_1_x'']
     \<and> files w' ''/var/acme/tok_1_x'' = None"
proof -
  have tok: "getitem (JObj [(''type'', JStr ''http-01''), (''token'', JStr ''tok/1.x''),
                  (''uri'', JStr ''https://ca/chal/1'')]) ''token'' = Inr (JStr ''tok/1.x'')"
    by (simp add: getitem_def)
  have served: "(\<exists>e. example_net authz_body ''something else'' [valid_body]
          (trace \<lparr>trace = [Get ''https://ca/directory'',
                 Post ''https://ca/acme/new-authz''
                   (signed_body example_lib () [(''alg'', JStr ''RS256'')] (JStr ''nonce'')
                      (new_authz_payload ''example.com''))],
        files = Map.empty\<rparr> @
           [Write ''/var/acme/tok_1_x'' ''tok_1_x.THUMB'',
            Get ''http://example.com/.well-known/acme-challenge/tok_1_x'']) = Raises_IOError e)
     \<or> (\<exists>c h body text. example_net authz_body ''something else'' [valid_body]
          (trace \<lparr>trace = [Get ''https://ca/directory'',
                 Post ''https://ca/acme/new-authz''
                   (signed_body example_lib () [(''alg'', JStr ''RS256'')] (JStr ''nonce'')
                      (new_authz_payload ''example.com''))],
        files = Map.empty\<rparr> @
           [Write ''/var/acme/tok_1_x'' ''tok_1_x.THUMB'',
            Get ''http://example.com/.well-known/acme-challenge/tok_1_x'']) = Response c h body
         \<and> decode_utf8 example_lib body = Some text \<and> strip text \<noteq> ''tok_1_x.THUMB'')"
    by (simp add: example_net_def example_lib_def strip_def is_space_def)
  from self_check_failure [where N = "example_net authz_body ''something else'' [valid_body]"
      and acme_dir = "''/var/acme''" and thumb = "''THUMB''",
      OF example_authz example_select tok _ _ _ served]
  show ?thesis by (auto simp: example_names)
qed

lemma example_challenge_fields:
  "getitem (JObj [(''type'', JStr ''http-01''), (''token'', JStr ''tok/1.x''),
                  (''uri'', JStr ''https://ca/chal/1'')]) ''token'' = Inr (JStr ''tok/1.x'')"
  "getitem (JObj [(''type'', JStr ''http-01''), (''token'', JStr ''tok/1.x''),
                  (''uri'', JStr ''https://ca/chal/1'')]) ''uri'' = Inr (JStr ''https://ca/chal/1'')"
  by (simp_all add: getitem_def)

text \<open>
  C5 as the specification states it fails: the body is compared after \<^verbatim>\<open>strip()\<close>. A
  server that answers with the key authorization and a newline serves a body that is not
  equal to it, and the run goes on: it posts to the challenge URI and the domain is
  validated.
\<close>

theorem self_check_strips_whitespace:
  "''tok_1_x.THUMB'' @ [CHR 0x0A] \<noteq> ''tok_1_x.THUMB''
   \<and> verify_domain example_lib
       (example_net authz_body (''tok_1_x.THUMB'' @ [CHR 0x0A]) [valid_body]) ()
       ''/var/acme'' ''https://ca'' [(''alg'', JStr ''RS256'')] ''THUMB'' ''example.com'' world0
     = Some (Inr (),
         \<lparr>trace = [Get ''https://ca/directory'',
                   Post ''https://ca/acme/new-authz''
                     (signed_body example_lib () [(''alg'', JStr ''RS256'')] (JStr ''nonce'')
                        (new_authz_payload ''example.com'')),
                   Write ''/var/acme/tok_1_x'' ''tok_1_x.THUMB'',
                   Get ''http://example.com/.well-known/acme-challenge/tok_1_x'',
                   Get ''https://ca/directory'',
                   Post ''https://ca/chal/1''
                     (signed_body example_lib () [(''alg'', JStr ''RS256'')] (JStr ''nonce'')
                        (challenge_payload ''tok_1_x.THUMB'')),
                   Get ''https://ca/chal/1'',
                   Remove ''/var/acme/tok_1_x''],
          files = Map.empty\<rparr>)"
proof -
  let ?N = "example_net authz_body (''tok_1_x.THUMB'' @ [CHR 0x0A]) [valid_body]"
  let ?H = "[(''alg'', JStr ''RS256'')]"
  let ?t1 = "[Get ''https://ca/directory'',
              Post ''https://ca/acme/new-authz''
                (signed_body example_lib () ?H (JStr ''nonce'') (new_authz_payload ''example.com''))]"
  let ?w1 = "\<lparr>trace = ?t1, files = Map.empty\<rparr>"
  let ?t4 = "?t1 @ [Write ''/var/acme/tok_1_x'' ''tok_1_x.THUMB'',
                   Get ''http://example.com/.well-known/acme-challenge/tok_1_x'',
                   Get ''https://ca/directory'',
                   Post ''https://ca/chal/1''
                     (signed_body example_lib () ?H (JStr ''nonce'')
                        (challenge_payload ''tok_1_x.THUMB''))]"
  let ?w4 = "\<lparr>trace = ?t4, files = [''/var/acme/tok_1_x'' \<mapsto> ''tok_1_x.THUMB'']\<rparr>"
  have served: "?N (trace ?w1 @ [Write ''/var/acme/tok_1_x'' ''tok_1_x.THUMB'',
                   Get ''http://example.com/.well-known/acme-challenge/tok_1_x''])
      = Response 200 None (''tok_1_x.THUMB'' @ [CHR 0x0A])"
    by (simp add: example_net_def)
  have decoded: "decode_utf8 example_lib (''tok_1_x.THUMB'' @ [CHR 0x0A])
      = Some (''tok_1_x.THUMB'' @ [CHR 0x0A])"
    by (simp add: example_lib_def)
  have stripped: "strip (''tok_1_x.THUMB'' @ [CHR 0x0A]) = ''tok_1_x.THUMB''"
    by (simp add: strip_def is_space_def)
  have nonce: "?N (trace ?w1 @ [Write ''/var/acme/tok_1_x'' ''tok_1_x.THUMB'',
                   Get ''http://example.com/.well-known/acme-challenge/tok_1_x'',
                   Get (''https://ca'' @ ''/directory'')])
      = Response 200 (Some ''nonce'') []"
    by (simp add: example_net_def)
  have triggered: "verify_domain example_lib ?N () ''/var/acme'' ''https://ca'' ?H ''THUMB''
      ''example.com'' world0
      = wait_for_challenge example_lib ?N ''https://ca/chal/1'' ''example.com''
          ''/var/acme/tok_1_x'' ?w4"
    using verify_domain_triggered [where N = ?N and acme_dir = "''/var/acme''"
        and thumb = "''THUMB''" and ka = "''tok_1_x.THUMB''" and path = "''/var/acme/tok_1_x''"
        and url = "''http://example.com/.well-known/acme-challenge/tok_1_x''",
        OF example_authz example_select example_challenge_fields(1) _ _ _
          served decoded stripped example_challenge_fields(2) nonce refl refl]
    by (simp add: example_names example_net_def nonce_value_def)
  have polled: "poll_status example_lib (?N (trace ?w4 @ [Get ''https://ca/chal/1'']))
      = Some (JObj [(''status'', JStr ''valid'')], JStr ''valid'')"
    by (simp add: example_net_def example_poll_status)
  have waited: "wait_for_challenge example_lib ?N ''https://ca/chal/1'' ''example.com''
          ''/var/acme/tok_1_x'' ?w4
      = Some (Inr (), \<lparr>trace = ?t4 @ [Get ''https://ca/chal/1'', Remove ''/var/acme/tok_1_x''],
                       files = Map.empty\<rparr>)"
    using wait_final_step [where N = ?N and L = example_lib, OF polled, of "''/var/acme/tok_1_x''"
        "''example.com''"]
    by (simp add: world_updates)
  show ?thesis using triggered waited by simp
qed

lemma sanitize_changes:
  assumes "\<not> list_all token_char t"
  shows "sanitize t @ ''.'' @ thumb \<noteq> t @ ''.'' @ thumb"
proof -
  from assms obtain c where c: "c \<in> set t" "\<not> token_char c"
    by (auto simp: list_all_iff)
  have "\<forall>x \<in> set (sanitize t). token_char x"
    by (auto simp: sanitize_def token_char_def)
  with c have "sanitize t \<noteq> t" by metis
  then show ?thesis by simp
qed

text \<open>
  C9. The key authorization is built from the sanitized token. With \<open>t\<close> the token of
  the challenge as the authority sent it: the file written holds
  \<open>sanitize t @ ''.'' @ thumb\<close>; the self-check passes exactly when the served body,
  stripped, is that string; and the \<^verbatim>\<open>keyAuthorization\<close> posted to the challenge URI
  is that string. When \<open>t\<close> has a character outside \<^verbatim>\<open>[A-Za-z0-9_-]\<close>, it differs from
  \<open>t @ ''.'' @ thumb\<close>.
\<close>

theorem key_authorization_sanitized:
  assumes "send_signed L N key CA (JStr (CA @ ''/acme/new-authz'')) header
             (new_authz_payload domain) w = (Inr (Some 201, result), w1)"
      and "select_challenge L result = Inr challenge"
      and "getitem challenge ''token'' = Inr (JStr t)"
      and "ka = sanitize t @ ''.'' @ thumb"
      and "path = os_path_join acme_dir (sanitize t)"
      and "url = wellknown_url_of domain (sanitize t)"
      and "N (trace w1 @ [Write path ka, Get url]) = Response c h body"
      and "decode_utf8 L body = Some text"
      and "getitem challenge ''uri'' = Inr (JStr u)"
      and "N (trace w1 @ [Write path ka, Get url, Get (CA @ ''/directory'')]) = Response c0 h0 b0"
      and "t4 = trace w1 @ [Write path ka, Get url, Get (CA @ ''/directory''),
                   Post u (signed_body L key header (nonce_value h0)
                     (JObj [(''resource'', JStr ''challenge''),
                            (''keyAuthorization'', JStr ka)]))]"
      and "http_status (N t4) = Some (202, body2)"
  shows "(strip text = ka \<longrightarrow>
            verify_domain L N key acme_dir CA header thumb domain w =
              wait_for_challenge L N u domain path
                \<lparr>trace = t4, files = (files w1)(path \<mapsto> ka)\<rparr>)
       \<and> (strip text \<noteq> ka \<longrightarrow>
            verify_domain L N key acme_dir CA header thumb domain w =
              Some (Inl (ValueError (Couldnt_download path url)),
                    \<lparr>trace = trace w1 @ [Write path ka, Get url, Remove path],
                     files = (files w1)(path := None)\<rparr>))
       \<and> (\<not> list_all token_char t \<longrightarrow> ka \<noteq> t @ ''.'' @ thumb)"
proof (intro conjI impI)
  assume pass: "strip text = ka"
  have t4: "t4 = trace w1 @ [Write path ka, Get url, Get (CA @ ''/directory''),
                   Post u (signed_body L key header (nonce_value h0) (challenge_payload ka))]"
    using assms(11) by (simp add: challenge_payload_def)
  show "verify_domain L N key acme_dir CA header thumb domain w =
              wait_for_challenge L N u domain path
                \<lparr>trace = t4, files = (files w1)(path \<mapsto> ka)\<rparr>"
    using assms(12)
    by (auto simp: verify_domain_triggered [where N = N, OF assms(1-8) pass assms(9,10) t4 refl]
        http_status_def split: urlresult.splits ioerror.splits)
next
  assume fail: "strip text \<noteq> ka"
  show "verify_domain L N key acme_dir CA header thumb domain w =
              Some (Inl (ValueError (Couldnt_download path url)),
                    \<lparr>trace = trace w1 @ [Write path ka, Get url, Remove path],
                     files = (files w1)(path := None)\<rparr>)"
    using assms(7,8) fail
    by (intro verify_domain_self_check_failed [where N = N, OF assms(1-6)]) blast
next
  assume "\<not> list_all token_char t"
  then show "ka \<noteq> t @ ''.'' @ thumb"
    unfolding assms(4) by (rule sanitize_changes)
qed

theorem key_authorization_sanitized_witness:
  "verify_domain example_lib (example_net authz_body ''tok_1_x.THUMB'' [valid_body]) ()
       ''/var/acme'' ''https://ca'' [(''alg'', JStr ''RS256'')] ''THUMB'' ''example.com'' world0
     = wait_for_challenge example_lib (example_net authz_body ''tok_1_x.THUMB'' [valid_body])
         ''https://ca/chal/1'' ''example.com'' ''/var/acme/tok_1_x''
         \<lparr>trace = [Get ''https://ca/directory'',
                   Post ''https://ca/acme/new-authz''
                     (signed_body example_lib () [(''alg'', JStr ''RS256'')] (JStr ''nonce'')
                        (new_authz_payload ''example.com'')),
                   Write ''/var/acme/tok_1_x'' ''tok_1_x.THUMB'',
                   Get ''http://example.com/.well-known/acme-challenge/tok_1_x'',
                   Get ''https://ca/directory'',
                   Post ''https://ca/chal/1''
                     (signed_body example_lib () [(''alg'', JStr ''RS256'')] (JStr ''nonce'')
                        (JObj [(''resource'', JStr ''challenge''),
                               (''keyAuthorization'', JStr ''tok_1_x.THUMB'')]))],
          files = [''/var/acme/tok_1_x'' \<mapsto> ''tok_1_x.THUMB'']\<rparr>
   \<and> ''tok_1_x.THUMB'' \<noteq> ''tok/1.x'' @ ''.'' @ ''THUMB''"
proof -
  let ?N = "example_net authz_body ''tok_1_x.THUMB'' [valid_body]"
  let ?H = "[(''alg'', JStr ''RS256'')]"
  let ?t1 = "[Get ''https://ca/directory'',
              Post ''https://ca/acme/new-authz''
                (signed_body example_lib () ?H (JStr ''nonce'') (new_authz_payload ''example.com''))]"
  let ?w1 = "\<lparr>trace = ?t1, files = Map.empty\<rparr>"
  have served: "?N (trace ?w1 @ [Write ''/var/acme/tok_1_x'' ''tok_1_x.THUMB'',
                   Get ''http://example.com/.well-known/acme-challenge/tok_1_x''])
      = Response 200 None ''tok_1_x.THUMB''"
    by (simp add: example_net_def)
  have decoded: "decode_utf8 example_lib ''tok_1_x.THUMB'' = Some ''tok_1_x.THUMB''"
    by (simp add: example_lib_def)
  have stripped: "strip ''tok_1_x.THUMB'' = ''tok_1_x.THUMB''"
    by (simp add: strip_def is_space_def)
  have nonce: "?N (trace ?w1 @ [Write ''/var/acme/tok_1_x'' ''tok_1_x.THUMB'',
                   Get ''http://example.com/.well-known/acme-challenge/tok_1_x'',
                   Get (''https://ca'' @ ''/directory'')])
      = Response 200 (Some ''nonce'') []"
    by (simp add: example_net_def)
  have accepted: "http_status (?N (trace ?w1 @ [Write ''/var/acme/tok_1_x'' ''tok_1_x.THUMB'',
                   Get ''http://example.com/.well-known/acme-challenge/tok_1_x'',
                   Get (''https://ca'' @ ''/directory''),
                   Post ''https://ca/chal/1''
                     (signed_body example_lib () ?H (nonce_value (Some ''nonce''))
                        (JObj [(''resource'', JStr ''challenge''),
                               (''keyAuthorization'', JStr ''tok_1_x.THUMB'')]))]))
      = Some (202, [])"
    by (simp add: example_net_def http_status_def)
  from key_authorization_sanitized [where N = ?N and acme_dir = "''/var/acme''"
        and thumb = "''THUMB''" and ka = "''tok_1_x.THUMB''" and path = "''/var/acme/tok_1_x''"
        and url = "''http://example.com/.well-known/acme-challenge/tok_1_x''",
        OF example_authz example_select example_challenge_fields(1) _ _ _
          served decoded example_challenge_fields(2) nonce refl accepted]
    stripped
  show ?thesis
    by (simp add: example_names nonce_value_def token_char_def)
qed

section \<open>The run over all domains\<close>

lemma verify_domains_append:
  "verify_domains L N key acme_dir CA header thumb (pre @ post) w =
     (case verify_domains L N key acme_dir CA header thumb pre w of
        None \<Rightarrow> None
      | Some (Inl e, w1) \<Rightarrow> Some (Inl e, w1)
      | Some (Inr u, w1) \<Rightarrow> verify_domains L N key acme_dir CA header thumb post w1)"
  by (induction pre arbitrary: w) (auto split: option.splits sum.splits)

lemma verify_domains_first_failure:
  assumes "verify_domains L N key acme_dir CA header thumb pre w = Some (Inr (), wk)"
      and "verify_domain L N key acme_dir CA header thumb d wk = Some (Inl e, w')"
  shows "verify_domains L N key acme_dir CA header thumb (pre @ d # post) w = Some (Inl e, w')"
  using assms by (simp add: verify_domains_append)

lemma verify_domains_each:
  assumes "verify_domains L N key acme_dir CA header thumb ds w = Some (Inr (), w')"
      and "i < length ds"
  shows "\<exists>wi wi'. verify_domains L N key acme_dir CA header thumb (take i ds) w = Some (Inr (), wi)
           \<and> verify_domain L N key acme_dir CA header thumb (ds ! i) wi = Some (Inr (), wi')"
proof -
  have ds: "ds = take i ds @ ds ! i # drop (Suc i) ds"
    using assms(2) by (rule id_take_nth_drop)
  have "verify_domains L N key acme_dir CA header thumb (take i ds @ ds ! i # drop (Suc i) ds) w
      = Some (Inr (), w')"
    using assms(1) ds by simp
  then show ?thesis
    by (auto simp: verify_domains_append split: option.splits sum.splits)
qed

lemma wait_success_valid:
  assumes "wait_for_challenge L N uri domain p w = Some y"
  shows "fst y = Inr () \<longrightarrow>
         (\<exists>t st. poll_status L (N (t @ [Get uri])) = Some (st, JStr ''valid'')
                \<and> trace (snd y) = t @ [Get uri, Remove p])"
proof (rule wait_for_challenge.raw_induct
    [where P = "\<lambda>L N uri domain p w y. fst y = Inr () \<longrightarrow>
         (\<exists>t st. poll_status L (N (t @ [Get uri])) = Some (st, JStr ''valid'')
                \<and> trace (snd y) = t @ [Get uri, Remove p])", OF _ assms])
  fix wait :: "('a, 'b, 'c) pylib \<Rightarrow> network \<Rightarrow> url \<Rightarrow> string \<Rightarrow> path \<Rightarrow> world
     \<Rightarrow> ((error + unit) \<times> world) option"
  fix L :: "('a, 'b, 'c) pylib" and N :: network and uri domain p and w :: world and y
  assume IH: "\<And>L N uri domain p w y. wait L N uri domain p w = Some y \<Longrightarrow>
      fst y = Inr () \<longrightarrow>
         (\<exists>t st. poll_status L (N (t @ [Get uri])) = Some (st, JStr ''valid'')
                \<and> trace (snd y) = t @ [Get uri, Remove p])"
  assume body: "(case urlopen N (Get uri) w of
      (Response code h body, w1) \<Rightarrow>
        (case loads_utf8 L body of Inl e \<Rightarrow> Some (Inl e, w1)
        | Inr challenge_status \<Rightarrow>
            (case getitem challenge_status ''status'' of
            Inl e \<Rightarrow> Some (Inl e, w1)
            | Inr status \<Rightarrow>
                if status = JStr ''pending''
                then wait L N uri domain p (time_sleep 2 w1)
                else if status = JStr ''valid''
                     then (case os_remove p w1 of
                          Inl e \<Rightarrow> Some (Inl e, w1)
                          | Inr w2 \<Rightarrow> Some (Inr (), w2))
                     else Some (Inl (ValueError (Challenge_did_not_pass domain challenge_status)),
                            w1)))
      | (Raises_IOError (HTTPError code body), w1) \<Rightarrow>
          (case loads_utf8 L body of Inl e \<Rightarrow> Some (Inl e, w1)
          | Inr j \<Rightarrow> Some (Inl (ValueError (Error_checking_challenge code j)), w1))
      | (Raises_IOError (URLError text), w1) \<Rightarrow> Some (Inl AttributeError, w1)
      | (Raises_other, w1) \<Rightarrow> Some (Inl UrlopenError, w1)) = Some y"
  show "fst y = Inr () \<longrightarrow>
         (\<exists>t st. poll_status L (N (t @ [Get uri])) = Some (st, JStr ''valid'')
                \<and> trace (snd y) = t @ [Get uri, Remove p])"
  proof
    assume ok: "fst y = Inr ()"
    show "\<exists>t st. poll_status L (N (t @ [Get uri])) = Some (st, JStr ''valid'')
                \<and> trace (snd y) = t @ [Get uri, Remove p]"
    proof (cases "poll_status L (N (trace w @ [Get uri]))")
      case None
      then show ?thesis
        using body ok
        by (auto simp: poll_status_def urlopen_def
            split: urlresult.splits sum.splits ioerror.splits)
    next
      case (Some a)
      obtain st s where a: "a = (st, s)" by (cases a)
      show ?thesis
      proof (cases "s = JStr ''pending''")
        case True
        then have "wait L N uri domain p (time_sleep 2 (snd (urlopen N (Get uri) w))) = Some y"
          using body Some a
          by (auto simp: poll_status_def urlopen_def
              split: urlresult.splits sum.splits ioerror.splits)
        from IH [OF this] ok show ?thesis by blast
      next
        case False
        then have "s = JStr ''valid'' \<and> trace (snd y) = trace w @ [Get uri, Remove p]"
          using body Some a ok
          by (auto simp: poll_status_def urlopen_def os_remove_def
              split: urlresult.splits sum.splits ioerror.splits if_splits)
        with Some a show ?thesis by blast
      qed
    qed
  qed
qed

lemma verify_domain_success_valid:
  assumes "verify_domain L N key acme_dir CA header thumb domain w = Some (Inr (), w')"
  shows "\<exists>u t st p. poll_status L (N (t @ [Get u])) = Some (st, JStr ''valid'')
           \<and> trace w' = t @ [Get u, Remove p]"
proof -
  from assms obtain u p w4 where "wait_for_challenge L N u domain p w4 = Some (Inr (), w')"
    by (auto simp: verify_domain_def Let_def
        split: prod.splits sum.splits if_splits json.splits)
  from wait_success_valid [OF this] show ?thesis by auto
qed

text \<open>
  C1. The domains are validated one after the other, in the order of the list: domain
  \<open>i\<close> is validated in the world that the domains before it have left. The first
  domain that fails ends the run with its error, in the world where it failed: nothing
  is requested for a later domain, and new-cert is not submitted. A certificate is
  returned only when every domain of the list has been validated, each one after the
  authority answered \<^verbatim>\<open>valid\<close> to a poll, and new-cert was submitted after the last.
\<close>

theorem get_crt_from_csr_sequential:
  assumes "acme_header L key = Inr header"
      and "thumbprint L header = Inr thumb"
  shows "(\<forall>pre d post wk e w'.
            domains = pre @ d # post \<longrightarrow>
            verify_domains L N key acme_dir CA header thumb pre w = Some (Inr (), wk) \<longrightarrow>
            verify_domain L N key acme_dir CA header thumb d wk = Some (Inl e, w') \<longrightarrow>
              get_crt_from_csr L N key csr domains acme_dir CA w = Some (Inl e, w'))
       \<and> (\<forall>cert w'.
            get_crt_from_csr L N key csr domains acme_dir CA w = Some (Inr cert, w') \<longrightarrow>
              (\<exists>w1. verify_domains L N key acme_dir CA header thumb domains w = Some (Inr (), w1)
                  \<and> sign_certificate L N key csr CA header w1 = (Inr cert, w'))
              \<and> (\<forall>i<length domains. \<exists>wi wi'.
                    verify_domains L N key acme_dir CA header thumb (take i domains) w
                      = Some (Inr (), wi)
                    \<and> verify_domain L N key acme_dir CA header thumb (domains ! i) wi
                      = Some (Inr (), wi')
                    \<and> (\<exists>u t st p. poll_status L (N (t @ [Get u])) = Some (st, JStr ''valid'')
                          \<and> trace wi' = t @ [Get u, Remove p])))"
proof (intro conjI allI impI)
  fix pre d post wk e w'
  assume "domains = pre @ d # post"
    and "verify_domains L N key acme_dir CA header thumb pre w = Some (Inr (), wk)"
    and "verify_domain L N key acme_dir CA header thumb d wk = Some (Inl e, w')"
  then have "verify_domains L N key acme_dir CA header thumb domains w = Some (Inl e, w')"
    by (simp add: verify_domains_first_failure)
  then show "get_crt_from_csr L N key csr domains acme_dir CA w = Some (Inl e, w')"
    using assms by (simp add: get_crt_from_csr_def)
next
  fix cert w'
  assume ok: "get_crt_from_csr L N key csr domains acme_dir CA w = Some (Inr cert, w')"
  then obtain w1 where
    all: "verify_domains L N key acme_dir CA header thumb domains w = Some (Inr (), w1)"
    and signed: "sign_certificate L N key csr CA header w1 = (Inr cert, w')"
    using assms
    by (auto simp: get_crt_from_csr_def split: option.splits sum.splits prod.splits)
  show "\<exists>w1. verify_domains L N key acme_dir CA header thumb domains w = Some (Inr (), w1)
                  \<and> sign_certificate L N key csr CA header w1 = (Inr cert, w')"
    using all signed by blast
  fix i
  assume "i < length domains"
  from verify_domains_each [OF all this] obtain wi wi' where
    before: "verify_domains L N key acme_dir CA header thumb (take i domains) w
       = Some (Inr (), wi)"
    and this_one: "verify_domain L N key acme_dir CA header thumb (domains ! i) wi
       = Some (Inr (), wi')"
    by blast
  from verify_domain_success_valid [OF this_one] before this_one
  show "\<exists>wi wi'.
          verify_domains L N key acme_dir CA header thumb (take i domains) w = Some (Inr (), wi)
          \<and> verify_domain L N key acme_dir CA header thumb (domains ! i) wi = Some (Inr (), wi')
          \<and> (\<exists>u t st p. poll_status L (N (t @ [Get u])) = Some (st, JStr ''valid'')
                \<and> trace wi' = t @ [Get u, Remove p])"
    by blast
qed

lemma example_thumbprint:
  "thumbprint example_lib
     [(''alg'', JStr ''RS256''),
      (''jwk'', JObj [(''e'', JStr ''010001''), (''kty'', JStr ''RSA''), (''n'', JStr ''c35f'')])]
   = Inr ''THUMB''"
  by (simp add: thumbprint_def example_lib_def base64_enc_def)

lemma example_first_domain_invalid:
  "(case verify_domain example_lib (example_net authz_body ''tok_1_x.THUMB'' [invalid_body]) ()
           ''/var/acme'' ''https://ca''
           [(''alg'', JStr ''RS256''),
            (''jwk'', JObj [(''e'', JStr ''010001''), (''kty'', JStr ''RSA''),
                            (''n'', JStr ''c35f'')])]
           ''THUMB'' ''example.com'' world0 of
      Some (Inl e, w') \<Rightarrow>
        e = ValueError (Challenge_did_not_pass ''example.com''
              (JObj [(''status'', JStr ''invalid''), (''error'', JStr ''unauthorized'')]))
        \<and> trace w'
          = [Get ''https://ca/directory'',
             Post ''https://ca/acme/new-authz''
               (signed_body example_lib ()
                  [(''alg'', JStr ''RS256''),
                   (''jwk'', JObj [(''e'', JStr ''010001''), (''kty'', JStr ''RSA''),
                                   (''n'', JStr ''c35f'')])]
                  (JStr ''nonce'') (new_authz_payload ''example.com'')),
             Write ''/var/acme/tok_1_x'' ''tok_1_x.THUMB'',
             Get ''http://example.com/.well-known/acme-challenge/tok_1_x'',
             Get ''https://ca/directory'',
             Post ''https://ca/chal/1''
               (signed_body example_lib ()
                  [(''alg'', JStr ''RS256''),
                   (''jwk'', JObj [(''e'', JStr ''010001''), (''kty'', JStr ''RSA''),
                                   (''n'', JStr ''c35f'')])]
                  (JStr ''nonce'') (challenge_payload ''tok_1_x.THUMB'')),
             Get ''https://ca/chal/1'']
    | _ \<Rightarrow> False)"
  by code_simp

lemma example_both_domains_valid:
  "(case get_crt_from_csr example_lib (example_net authz_body ''tok_1_x.THUMB'' [valid_body]) () ()
           [''example.com'', ''www.example.com''] ''/var/acme'' ''https://ca'' world0 of
      Some (Inr cert, w') \<Rightarrow> cert = ''certificate''
    | _ \<Rightarrow> False)"
  by code_simp


lemma case_result_InlE:
  assumes "(case x of Some (Inl e, w) \<Rightarrow> P e w | _ \<Rightarrow> False)"
  obtains e w where "x = Some (Inl e, w)" and "P e w"
proof (cases x)
  case None
  with assms show ?thesis by simp
next
  case (Some r)
  obtain a w where r: "r = (a, w)" by (cases r)
  show ?thesis
  proof (cases a)
    case (Inl e)
    with assms Some r that [of e w] show ?thesis by simp
  next
    case (Inr c)
    with assms Some r show ?thesis by simp
  qed
qed

lemma case_result_InrE:
  assumes "(case x of Some (Inr c, w) \<Rightarrow> P c w | _ \<Rightarrow> False)"
  obtains c w where "x = Some (Inr c, w)" and "P c w"
proof (cases x)
  case None
  with assms show ?thesis by simp
next
  case (Some r)
  obtain a w where r: "r = (a, w)" by (cases r)
  show ?thesis
  proof (cases a)
    case (Inl e)
    with assms Some r show ?thesis by simp
  next
    case (Inr c)
    with assms Some r that [of c w] show ?thesis by simp
  qed
qed

theorem get_crt_from_csr_sequential_witness:
  "(\<exists>w'. get_crt_from_csr example_lib (example_net authz_body ''tok_1_x.THUMB'' [invalid_body])
            () () [''example.com'', ''www.example.com''] ''/var/acme'' ''https://ca'' world0
          = Some (Inl (ValueError (Challenge_did_not_pass ''example.com''
                    (JObj [(''status'', JStr ''invalid''), (''error'', JStr ''unauthorized'')]))),
                  w')
        \<and> trace w'
          = [Get ''https://ca/directory'',
             Post ''https://ca/acme/new-authz''
               (signed_body example_lib ()
                  [(''alg'', JStr ''RS256''),
                   (''jwk'', JObj [(''e'', JStr ''010001''), (''kty'', JStr ''RSA''),
                                   (''n'', JStr ''c35f'')])]
                  (JStr ''nonce'') (new_authz_payload ''example.com'')),
             Write ''/var/acme/tok_1_x'' ''tok_1_x.THUMB'',
             Get ''http://example.com/.well-known/acme-challenge/tok_1_x'',
             Get ''https://ca/directory'',
             Post ''https://ca/chal/1''
               (signed_body example_lib ()
                  [(''alg'', JStr ''RS256''),
                   (''jwk'', JObj [(''e'', JStr ''010001''), (''kty'', JStr ''RSA''),
                                   (''n'', JStr ''c35f'')])]
                  (JStr ''nonce'') (challenge_payload ''tok_1_x.THUMB'')),
             Get ''https://ca/chal/1''])
   \<and> (\<exists>w' w1. get_crt_from_csr example_lib (example_net authz_body ''tok_1_x.THUMB'' [valid_body])
            () () [''example.com'', ''www.example.com''] ''/var/acme'' ''https://ca'' world0
          = Some (Inr ''certificate'', w')
        \<and> verify_domains example_lib (example_net authz_body ''tok_1_x.THUMB'' [valid_body]) ()
            ''/var/acme'' ''https://ca''
            [(''alg'', JStr ''RS256''),
             (''jwk'', JObj [(''e'', JStr ''010001''), (''kty'', JStr ''RSA''),
                             (''n'', JStr ''c35f'')])]
            ''THUMB'' [''example.com'', ''www.example.com''] world0
          = Some (Inr (), w1)
        \<and> sign_certificate example_lib (example_net authz_body ''tok_1_x.THUMB'' [valid_body]) () ()
            ''https://ca''
            [(''alg'', JStr ''RS256''),
             (''jwk'', JObj [(''e'', JStr ''010001''), (''kty'', JStr ''RSA''),
                             (''n'', JStr ''c35f'')])]
            w1
          = (Inr ''certificate'', w'))"
proof -
  let ?H = "[(''alg'', JStr ''RS256''),
             (''jwk'', JObj [(''e'', JStr ''010001''), (''kty'', JStr ''RSA''),
                             (''n'', JStr ''c35f'')])]"
  let ?Ni = "example_net authz_body ''tok_1_x.THUMB'' [invalid_body]"
  let ?Nv = "example_net authz_body ''tok_1_x.THUMB'' [valid_body]"
  let ?e = "ValueError (Challenge_did_not_pass ''example.com''
              (JObj [(''status'', JStr ''invalid''), (''error'', JStr ''unauthorized'')]))"
  note sequential = get_crt_from_csr_sequential [OF example_header example_thumbprint]
  from example_first_domain_invalid obtain e w' where
    failed0: "verify_domain example_lib ?Ni () ''/var/acme'' ''https://ca'' ?H ''THUMB''
       ''example.com'' world0 = Some (Inl e, w')"
    and events0: "e = ?e \<and> trace w'
          = [Get ''https://ca/directory'',
             Post ''https://ca/acme/new-authz''
               (signed_body example_lib () ?H (JStr ''nonce'') (new_authz_payload ''example.com'')),
             Write ''/var/acme/tok_1_x'' ''tok_1_x.THUMB'',
             Get ''http://example.com/.well-known/acme-challenge/tok_1_x'',
             Get ''https://ca/directory'',
             Post ''https://ca/chal/1''
               (signed_body example_lib () ?H (JStr ''nonce'') (challenge_payload ''tok_1_x.THUMB'')),
             Get ''https://ca/chal/1'']"
    by (rule case_result_InlE)
  have e: "e = ?e" using events0 by (rule conjunct1)
  note events = events0 [THEN conjunct2]
  note failed = failed0 [unfolded e]
  have none_before: "verify_domains example_lib ?Ni () ''/var/acme'' ''https://ca'' ?H ''THUMB''
       [] world0 = Some (Inr (), world0)"
    by (rule verify_domains.simps(1))
  have split: "[''example.com'', ''www.example.com''] = [] @ ''example.com'' # [''www.example.com'']"
    by (rule append_Nil [symmetric])
  have aborted: "get_crt_from_csr example_lib ?Ni () () [''example.com'', ''www.example.com'']
      ''/var/acme'' ''https://ca'' world0 = Some (Inl ?e, w')"
    using sequential [where N = ?Ni and domains = "[''example.com'', ''www.example.com'']"
        and acme_dir = "''/var/acme''" and CA = "''https://ca''" and w = world0 and csr = "()",
        THEN conjunct1, rule_format, OF split none_before failed] .
  from example_both_domains_valid obtain c w'' where
    issued0: "get_crt_from_csr example_lib ?Nv () () [''example.com'', ''www.example.com'']
      ''/var/acme'' ''https://ca'' world0 = Some (Inr c, w'')"
    and c: "c = ''certificate''"
    by (rule case_result_InrE)
  note issued = issued0 [unfolded c]
  from sequential [where N = ?Nv and domains = "[''example.com'', ''www.example.com'']"
        and acme_dir = "''/var/acme''" and CA = "''https://ca''" and w = world0 and csr = "()",
        THEN conjunct2, rule_format, OF issued, THEN conjunct1]
  obtain w1 where
    validated: "verify_domains example_lib ?Nv () ''/var/acme'' ''https://ca'' ?H ''THUMB''
       [''example.com'', ''www.example.com''] world0 = Some (Inr (), w1)
     \<and> sign_certificate example_lib ?Nv () () ''https://ca'' ?H w1 = (Inr ''certificate'', w'')"
    by (rule exE)
  show ?thesis
    apply (intro conjI)
     apply (rule exI [of _ w'])
     apply (rule conjI [OF aborted events])
    apply (rule exI [of _ w''])
    apply (rule exI [of _ w1])
    apply (rule conjI [OF issued validated])
    done
qed

end
